theory Spec2Isabelle
  imports Main "HOL-Library.Sublist" "HOL-Library.AList"
begin

section \<open>Go strings\<close>

text \<open>
  A Go string is a sequence of bytes: \<open>len(s)\<close> counts bytes and \<open>s[:n]\<close> cuts at a byte
  index. The model uses \<open>string\<close> (\<open>char list\<close>, one \<open>char\<close> per byte), so \<open>len(s)\<close> is
  \<open>length s\<close> and \<open>s[:n]\<close>, for \<open>0 \<le> n \<le> len(s)\<close>, is \<open>take n s\<close>. A slice expression
  whose bound is out of range panics in Go; the panic is a value of the model.
\<close>

datatype go_panic = SliceBoundsOutOfRange

subsection \<open>The Go standard library: UTF-8 and case mapping\<close>

text \<open>
  The flat bot handler lower-cases with \<open>strings.ToLower\<close> and searches with
  \<open>strings.Contains\<close>; \<open>escapeHTML\<close> ranges over the runes of a string and converts the
  runes back. These functions belong to Go's standard library, not to the repository; the
  definitions below restate what the library computes. A rune is a Unicode code point (Go's
  \<open>int32\<close>; no arithmetic here leaves its range).
\<close>

type_synonym rune = int

definition RuneError :: rune where
  "RuneError = 0xFFFD"

definition byte_in :: "char \<Rightarrow> int \<Rightarrow> int \<Rightarrow> bool" where
  "byte_in c lo hi = (lo \<le> of_char c \<and> of_char c \<le> hi)"

text \<open>
  \<open>utf8.DecodeRuneInString\<close>: the first rune of the string and its width in bytes. A byte
  sequence that is not the shortest UTF-8 encoding of a code point outside the surrogate range
  decodes to \<open>(RuneError, 1)\<close>; the empty string to \<open>(RuneError, 0)\<close>.
\<close>

fun utf8_DecodeRuneInString :: "string \<Rightarrow> rune \<times> nat" where
  "utf8_DecodeRuneInString [] = (RuneError, 0)"
| "utf8_DecodeRuneInString (c0 # cs) =
     (let s0 = (of_char c0 :: int) in
      if s0 < 0x80 then (s0, 1)
      else if 0xC2 \<le> s0 \<and> s0 \<le> 0xDF then
        (case cs of
           c1 # _ \<Rightarrow>
             if byte_in c1 0x80 0xBF then ((s0 mod 32) * 64 + of_char c1 mod 64, 2)
             else (RuneError, 1)
         | _ \<Rightarrow> (RuneError, 1))
      else if 0xE0 \<le> s0 \<and> s0 \<le> 0xEF then
        (case cs of
           c1 # c2 # _ \<Rightarrow>
             if byte_in c1 (if s0 = 0xE0 then 0xA0 else 0x80) (if s0 = 0xED then 0x9F else 0xBF)
                \<and> byte_in c2 0x80 0xBF
             then ((s0 mod 16) * 4096 + (of_char c1 mod 64) * 64 + of_char c2 mod 64, 3)
             else (RuneError, 1)
         | _ \<Rightarrow> (RuneError, 1))
      else if 0xF0 \<le> s0 \<and> s0 \<le> 0xF4 then
        (case cs of
           c1 # c2 # c3 # _ \<Rightarrow>
             if byte_in c1 (if s0 = 0xF0 then 0x90 else 0x80) (if s0 = 0xF4 then 0x8F else 0xBF)
                \<and> byte_in c2 0x80 0xBF \<and> byte_in c3 0x80 0xBF
             then ((s0 mod 8) * 262144 + (of_char c1 mod 64) * 4096
                   + (of_char c2 mod 64) * 64 + of_char c3 mod 64, 4)
             else (RuneError, 1)
         | _ \<Rightarrow> (RuneError, 1))
      else (RuneError, 1))"

text \<open>
  \<open>for _, r := range s\<close> and \<open>[]rune(s)\<close>: the runes of a string, decoded one after the
  other; every byte that starts no valid encoding yields one \<open>RuneError\<close>.
\<close>

function runes_of :: "string \<Rightarrow> rune list" where
  "runes_of [] = []"
| "runes_of (c # cs) =
     fst (utf8_DecodeRuneInString (c # cs))
       # runes_of (drop (snd (utf8_DecodeRuneInString (c # cs))) (c # cs))"
  by pat_completeness auto
termination
proof (relation "measure length")
  show "wf (measure length)" by simp
next
  fix c :: char and cs :: string
  have "0 < snd (utf8_DecodeRuneInString (c # cs))"
    by (simp add: Let_def split: list.split)
  then show "(drop (snd (utf8_DecodeRuneInString (c # cs))) (c # cs), c # cs) \<in> measure length"
    by simp
qed

text \<open>\<open>utf8.AppendRune\<close>: the UTF-8 encoding of a rune; a surrogate or a value above
  \<open>U+10FFFF\<close> is encoded as \<open>RuneError\<close>.\<close>

definition utf8_EncodeRune :: "rune \<Rightarrow> string" where
  "utf8_EncodeRune r =
     (if r < 0x80 then [char_of r]
      else if r \<le> 0x7FF then [char_of (0xC0 + r div 64), char_of (0x80 + r mod 64)]
      else if 0x10FFFF < r \<or> (0xD800 \<le> r \<and> r \<le> 0xDFFF) then [CHR 0xEF, CHR 0xBF, CHR 0xBD]
      else if r \<le> 0xFFFF then
        [char_of (0xE0 + r div 4096), char_of (0x80 + (r div 64) mod 64), char_of (0x80 + r mod 64)]
      else
        [char_of (0xF0 + r div 262144), char_of (0x80 + (r div 4096) mod 64),
         char_of (0x80 + (r div 64) mod 64), char_of (0x80 + r mod 64)])"

text \<open>\<open>string(rs)\<close> for a slice of runes.\<close>

definition string_of_runes :: "rune list \<Rightarrow> string" where
  "string_of_runes rs = concat (map utf8_EncodeRune rs)"

text \<open>
  \<open>unicode.ToLower\<close> is the simple lowercase mapping of the Unicode Character Database, which
  Go tabulates in \<open>unicode.CaseRanges\<close> (Unicode 15.0 in the Go releases that have
  \<open>http.Request.PathValue\<close>, which the HTTP server of the repository calls). A row
  \<open>(lo, hi, stride, delta)\<close> maps every code point \<open>lo, lo + stride, \<dots>\<close> up to \<open>hi\<close> to itself
  plus \<open>delta\<close>; every other code point has no lowercase and is returned unchanged.
\<close>

definition CaseRanges_lower :: "(rune \<times> rune \<times> int \<times> int) list" where
  "CaseRanges_lower =
    [(0x41, 0x5A, 1, 32), (0xC0, 0xD6, 1, 32), (0xD8, 0xDE, 1, 32), (0x100, 0x12E, 2, 1),
     (0x130, 0x130, 1, - 199), (0x132, 0x136, 2, 1), (0x139, 0x147, 2, 1), (0x14A, 0x176, 2, 1),
     (0x178, 0x178, 1, - 121), (0x179, 0x17D, 2, 1), (0x181, 0x181, 1, 210),
     (0x182, 0x184, 2, 1), (0x186, 0x186, 1, 206), (0x187, 0x187, 1, 1), (0x189, 0x18A, 1, 205),
     (0x18B, 0x18B, 1, 1), (0x18E, 0x18E, 1, 79), (0x18F, 0x18F, 1, 202),
     (0x190, 0x190, 1, 203), (0x191, 0x191, 1, 1), (0x193, 0x193, 1, 205),
     (0x194, 0x194, 1, 207), (0x196, 0x196, 1, 211), (0x197, 0x197, 1, 209),
     (0x198, 0x198, 1, 1), (0x19C, 0x19C, 1, 211), (0x19D, 0x19D, 1, 213),
     (0x19F, 0x19F, 1, 214), (0x1A0, 0x1A4, 2, 1), (0x1A6, 0x1A6, 1, 218), (0x1A7, 0x1A7, 1, 1),
     (0x1A9, 0x1A9, 1, 218), (0x1AC, 0x1AC, 1, 1), (0x1AE, 0x1AE, 1, 218), (0x1AF, 0x1AF, 1, 1),
     (0x1B1, 0x1B2, 1, 217), (0x1B3, 0x1B5, 2, 1), (0x1B7, 0x1B7, 1, 219), (0x1B8, 0x1B8, 1, 1),
     (0x1BC, 0x1BC, 1, 1), (0x1C4, 0x1C4, 1, 2), (0x1C5, 0x1C5, 1, 1), (0x1C7, 0x1C7, 1, 2),
     (0x1C8, 0x1C8, 1, 1), (0x1CA, 0x1CA, 1, 2), (0x1CB, 0x1DB, 2, 1), (0x1DE, 0x1EE, 2, 1),
     (0x1F1, 0x1F1, 1, 2), (0x1F2, 0x1F4, 2, 1), (0x1F6, 0x1F6, 1, - 97),
     (0x1F7, 0x1F7, 1, - 56), (0x1F8, 0x21E, 2, 1), (0x220, 0x220, 1, - 130),
     (0x222, 0x232, 2, 1), (0x23A, 0x23A, 1, 10795), (0x23B, 0x23B, 1, 1),
     (0x23D, 0x23D, 1, - 163), (0x23E, 0x23E, 1, 10792), (0x241, 0x241, 1, 1),
     (0x243, 0x243, 1, - 195), (0x244, 0x244, 1, 69), (0x245, 0x245, 1, 71),
     (0x246, 0x24E, 2, 1), (0x370, 0x372, 2, 1), (0x376, 0x376, 1, 1), (0x37F, 0x37F, 1, 116),
     (0x386, 0x386, 1, 38), (0x388, 0x38A, 1, 37), (0x38C, 0x38C, 1, 64), (0x38E, 0x38F, 1, 63),
     (0x391, 0x3A1, 1, 32), (0x3A3, 0x3AB, 1, 32), (0x3CF, 0x3CF, 1, 8), (0x3D8, 0x3EE, 2, 1),
     (0x3F4, 0x3F4, 1, - 60), (0x3F7, 0x3F7, 1, 1), (0x3F9, 0x3F9, 1, - 7),
     (0x3FA, 0x3FA, 1, 1), (0x3FD, 0x3FF, 1, - 130), (0x400, 0x40F, 1, 80),
     (0x410, 0x42F, 1, 32), (0x460, 0x480, 2, 1), (0x48A, 0x4BE, 2, 1), (0x4C0, 0x4C0, 1, 15),
     (0x4C1, 0x4CD, 2, 1), (0x4D0, 0x52E, 2, 1), (0x531, 0x556, 1, 48),
     (0x10A0, 0x10C5, 1, 7264), (0x10C7, 0x10C7, 1, 7264), (0x10CD, 0x10CD, 1, 7264),
     (0x13A0, 0x13EF, 1, 38864), (0x13F0, 0x13F5, 1, 8), (0x1C90, 0x1CBA, 1, - 3008),
     (0x1CBD, 0x1CBF, 1, - 3008), (0x1E00, 0x1E94, 2, 1), (0x1E9E, 0x1E9E, 1, - 7615),
     (0x1EA0, 0x1EFE, 2, 1), (0x1F08, 0x1F0F, 1, - 8), (0x1F18, 0x1F1D, 1, - 8),
     (0x1F28, 0x1F2F, 1, - 8), (0x1F38, 0x1F3F, 1, - 8), (0x1F48, 0x1F4D, 1, - 8),
     (0x1F59, 0x1F5F, 2, - 8), (0x1F68, 0x1F6F, 1, - 8), (0x1F88, 0x1F8F, 1, - 8),
     (0x1F98, 0x1F9F, 1, - 8), (0x1FA8, 0x1FAF, 1, - 8), (0x1FB8, 0x1FB9, 1, - 8),
     (0x1FBA, 0x1FBB, 1, - 74), (0x1FBC, 0x1FBC, 1, - 9), (0x1FC8, 0x1FCB, 1, - 86),
     (0x1FCC, 0x1FCC, 1, - 9), (0x1FD8, 0x1FD9, 1, - 8), (0x1FDA, 0x1FDB, 1, - 100),
     (0x1FE8, 0x1FE9, 1, - 8), (0x1FEA, 0x1FEB, 1, - 112), (0x1FEC, 0x1FEC, 1, - 7),
     (0x1FF8, 0x1FF9, 1, - 128), (0x1FFA, 0x1FFB, 1, - 126), (0x1FFC, 0x1FFC, 1, - 9),
     (0x2126, 0x2126, 1, - 7517), (0x212A, 0x212A, 1, - 8383), (0x212B, 0x212B, 1, - 8262),
     (0x2132, 0x2132, 1, 28), (0x2160, 0x216F, 1, 16), (0x2183, 0x2183, 1, 1),
     (0x24B6, 0x24CF, 1, 26), (0x2C00, 0x2C2F, 1, 48), (0x2C60, 0x2C60, 1, 1),
     (0x2C62, 0x2C62, 1, - 10743), (0x2C63, 0x2C63, 1, - 3814), (0x2C64, 0x2C64, 1, - 10727),
     (0x2C67, 0x2C6B, 2, 1), (0x2C6D, 0x2C6D, 1, - 10780), (0x2C6E, 0x2C6E, 1, - 10749),
     (0x2C6F, 0x2C6F, 1, - 10783), (0x2C70, 0x2C70, 1, - 10782), (0x2C72, 0x2C72, 1, 1),
     (0x2C75, 0x2C75, 1, 1), (0x2C7E, 0x2C7F, 1, - 10815), (0x2C80, 0x2CE2, 2, 1),
     (0x2CEB, 0x2CED, 2, 1), (0x2CF2, 0x2CF2, 1, 1), (0xA640, 0xA66C, 2, 1),
     (0xA680, 0xA69A, 2, 1), (0xA722, 0xA72E, 2, 1), (0xA732, 0xA76E, 2, 1),
     (0xA779, 0xA77B, 2, 1), (0xA77D, 0xA77D, 1, - 35332), (0xA77E, 0xA786, 2, 1),
     (0xA78B, 0xA78B, 1, 1), (0xA78D, 0xA78D, 1, - 42280), (0xA790, 0xA792, 2, 1),
     (0xA796, 0xA7A8, 2, 1), (0xA7AA, 0xA7AA, 1, - 42308), (0xA7AB, 0xA7AB, 1, - 42319),
     (0xA7AC, 0xA7AC, 1, - 42315), (0xA7AD, 0xA7AD, 1, - 42305), (0xA7AE, 0xA7AE, 1, - 42308),
     (0xA7B0, 0xA7B0, 1, - 42258), (0xA7B1, 0xA7B1, 1, - 42282), (0xA7B2, 0xA7B2, 1, - 42261),
     (0xA7B3, 0xA7B3, 1, 928), (0xA7B4, 0xA7C2, 2, 1), (0xA7C4, 0xA7C4, 1, - 48),
     (0xA7C5, 0xA7C5, 1, - 42307), (0xA7C6, 0xA7C6, 1, - 35384), (0xA7C7, 0xA7C9, 2, 1),
     (0xA7D0, 0xA7D0, 1, 1), (0xA7D6, 0xA7D8, 2, 1), (0xA7F5, 0xA7F5, 1, 1),
     (0xFF21, 0xFF3A, 1, 32), (0x10400, 0x10427, 1, 40), (0x104B0, 0x104D3, 1, 40),
     (0x10570, 0x1057A, 1, 39), (0x1057C, 0x1058A, 1, 39), (0x1058C, 0x10592, 1, 39),
     (0x10594, 0x10595, 1, 39), (0x10C80, 0x10CB2, 1, 64), (0x118A0, 0x118BF, 1, 32),
     (0x16E40, 0x16E5F, 1, 32), (0x1E900, 0x1E921, 1, 34)]"

fun to_lower_in :: "(rune \<times> rune \<times> int \<times> int) list \<Rightarrow> rune \<Rightarrow> rune" where
  "to_lower_in [] r = r"
| "to_lower_in ((lo, hi, stride, delta) # rows) r =
     (if lo \<le> r \<and> r \<le> hi \<and> (r - lo) mod stride = 0 then r + delta
      else to_lower_in rows r)"

definition unicode_ToLower :: "rune \<Rightarrow> rune" where
  "unicode_ToLower r = to_lower_in CaseRanges_lower r"

text \<open>
  \<open>strings.Map(mapping, s)\<close> for a mapping that returns no negative rune: every rune of \<open>s\<close>,
  mapped and encoded again. (The library copies a prefix of unchanged valid runes byte for
  byte, which is their encoding; a byte that is no valid encoding is a \<open>RuneError\<close> and is
  written as the three bytes of \<open>U+FFFD\<close>.)
\<close>

definition strings_Map :: "(rune \<Rightarrow> rune) \<Rightarrow> string \<Rightarrow> string" where
  "strings_Map mapping s = string_of_runes (map mapping (runes_of s))"

definition ascii_lower :: "char \<Rightarrow> char" where
  "ascii_lower c = (if byte_in c 0x41 0x5A then char_of (of_char c + (32 :: int)) else c)"

text \<open>
  \<open>strings.ToLower\<close>: a string of ASCII bytes only has its letters \<open>A\<close> to \<open>Z\<close> shifted by
  \<open>'a' - 'A'\<close>; any other string goes through \<open>strings.Map(unicode.ToLower, s)\<close>.
\<close>

definition strings_ToLower :: "string \<Rightarrow> string" where
  "strings_ToLower s =
     (if list_all (\<lambda>c. of_char c < (0x80 :: int)) s then map ascii_lower s
      else strings_Map unicode_ToLower s)"

text \<open>\<open>strings.HasPrefix\<close> and \<open>strings.Contains\<close> (\<open>strings.Index(s, substr) >= 0\<close>): the
  search tries every start position from the left.\<close>

fun strings_HasPrefix :: "string \<Rightarrow> string \<Rightarrow> bool" where
  "strings_HasPrefix s [] = True"
| "strings_HasPrefix [] (p # ps) = False"
| "strings_HasPrefix (c # cs) (p # ps) = (c = p \<and> strings_HasPrefix cs ps)"

fun strings_Contains :: "string \<Rightarrow> string \<Rightarrow> bool" where
  "strings_Contains [] substr = (substr = [])"
| "strings_Contains (c # cs) substr =
     (strings_HasPrefix (c # cs) substr \<or> strings_Contains cs substr)"

text \<open>\<open>fmt.Sprintf("%d", i)\<close>: the decimal digits of an integer, with a minus sign when it is
  negative.\<close>

fun decimal :: "nat \<Rightarrow> string" where
  "decimal n =
     (if n < 10 then [char_of (48 + n)] else decimal (n div 10) @ [char_of (48 + n mod 10)])"

declare decimal.simps [simp del]

definition Sprintf_d :: "int \<Rightarrow> string" where
  "Sprintf_d i = (if i < 0 then CHR ''-'' # decimal (nat (- i)) else decimal (nat i))"

text \<open>
  \<open>filepath.Ext\<close> of a file name without path separator: the suffix that starts at the last
  dot, empty when the name has no dot. The scan runs from the end of the name.
\<close>

fun Ext_scan :: "string \<Rightarrow> string \<Rightarrow> string" where
  "Ext_scan [] ext = []"
| "Ext_scan (c # front) ext =
     (if c = CHR ''.'' then c # ext else Ext_scan front (c # ext))"

definition filepath_Ext :: "string \<Rightarrow> string" where
  "filepath_Ext name = Ext_scan (rev name) []"

text \<open>Go's \<open><\<close> on strings: byte-wise lexicographic, a proper prefix first.\<close>

fun string_less :: "string \<Rightarrow> string \<Rightarrow> bool" where
  "string_less [] [] = False"
| "string_less [] (d # ds) = True"
| "string_less (c # cs) [] = False"
| "string_less (c # cs) (d # ds) =
     ((of_char c :: int) < of_char d \<or> (c = d \<and> string_less cs ds))"

section \<open>Data model\<close>

text \<open>
  \<open>models.go\<close> of the flat package and the \<open>domain\<close> packages of the modular one declare
  the same structs field by field; one record stands for both. A field \<open>F\<close> of struct \<open>S\<close>
  is named with a prefix for \<open>S\<close>, since several structs share field names. \<open>time.Time\<close> is
  a number of seconds since the Unix epoch, so \<open>time.Unix(sec, 0)\<close> is \<open>sec\<close>.
  \<open>FilterType\<close> and \<open>MediaType\<close> are the string enumerations that go-enum generates from
  \<open>ENUM(keywords,exclude_keywords,author)\<close> and \<open>ENUM(photo,video,document,audio)\<close>.
\<close>

type_synonym time = int

datatype FilterType = FilterTypeKeywords | FilterTypeExcludeKeywords | FilterTypeAuthor

datatype MediaType = MediaTypePhoto | MediaTypeVideo | MediaTypeDocument | MediaTypeAudio

fun MediaType_String :: "MediaType \<Rightarrow> string" where
  "MediaType_String MediaTypePhoto = ''photo''"
| "MediaType_String MediaTypeVideo = ''video''"
| "MediaType_String MediaTypeDocument = ''document''"
| "MediaType_String MediaTypeAudio = ''audio''"

record Filter =
  flt_Type :: FilterType
  flt_Keywords :: "string list"
  flt_Enabled :: bool

record Channel =
  ch_ID :: string
  ch_Username :: string
  ch_Title :: string
  ch_AddedBy :: int
  ch_AddedAt :: time
  ch_Filters :: "Filter list"
  ch_LastUpdate :: time
  ch_IsActive :: bool

record Media =
  md_Type :: MediaType
  md_FileID :: string
  md_URL :: string
  md_Thumbnail :: string
  md_Caption :: string

record Message =
  msg_ID :: int
  msg_ChannelID :: string
  msg_ChannelName :: string
  msg_Text :: string
  msg_Date :: time
  msg_Author :: string
  msg_Media :: "Media list"
  msg_Link :: string

text \<open>
  The fields of \<open>models.Message\<close> (go-telegram/bot) that the handlers read. \<open>From\<close>,
  \<open>Video\<close>, \<open>Document\<close> and \<open>Audio\<close> are pointers (\<open>None\<close> is \<open>nil\<close>); of a photo size,
  a video, a document and an audio only the \<open>FileID\<close> is read.
\<close>

record tg_User =
  tgu_Username :: string
  tgu_FirstName :: string

record tg_Message =
  tg_ID :: int
  tg_Chat_ID :: int
  tg_Text :: string
  tg_Caption :: string
  tg_Date :: int
  tg_From :: "tg_User option"
  tg_Photo :: "string list"
  tg_Video :: "string option"
  tg_Document :: "string option"
  tg_Audio :: "string option"

text \<open>The fields of \<open>feeds.Feed\<close> and \<open>feeds.Item\<close> (gorilla/feeds) that \<open>GenerateFeed\<close>
  sets; a \<open>feeds.Link\<close> is its \<open>Href\<close>, a \<open>feeds.Author\<close> its \<open>Name\<close>.\<close>

record Item =
  item_Title :: string
  item_Link :: string
  item_Description :: string
  item_Content :: string
  item_Author :: string
  item_Created :: time
  item_Id :: string

record Feed =
  feed_Title :: string
  feed_Link :: string
  feed_Description :: string
  feed_Author :: string
  feed_Created :: time
  feed_Updated :: time
  feed_Items :: "Item list"

section \<open>Filter evaluation\<close>

subsection \<open>bot_handler.go: BotHandler.passesFilters, containsKeyword\<close>

text \<open>
  \<^verbatim>\<open>
  func containsKeyword(text, keyword string) bool {
      if len(keyword) == 0 { return false }
      textLower := strings.ToLower(text)
      keywordLower := strings.ToLower(keyword)
      return strings.Contains(textLower, keywordLower)
  }
  \<close>
\<close>

definition containsKeyword :: "string \<Rightarrow> string \<Rightarrow> bool" where
  "containsKeyword text keyword =
     (if length keyword = 0 then False
      else strings_Contains (strings_ToLower text) (strings_ToLower keyword))"

text \<open>\<open>lo.ContainsBy(collection, predicate)\<close>: whether the predicate holds of some element,
  tried from the left.\<close>

fun lo_ContainsBy :: "'a list \<Rightarrow> ('a \<Rightarrow> bool) \<Rightarrow> bool" where
  "lo_ContainsBy [] predicate = False"
| "lo_ContainsBy (x # xs) predicate = (if predicate x then True else lo_ContainsBy xs predicate)"

text \<open>
  The body of \<open>for _, filter := range channel.Filters\<close>: \<open>continue\<close> and the end of the
  \<open>switch\<close> go on with the rest of the list, \<open>return false\<close> leaves the loop, and the
  \<open>return true\<close> after the loop is the empty list. The \<open>switch\<close> has no \<open>default\<close>; the case
  \<open>FilterTypeAuthor\<close> is empty.
\<close>

fun passesFilters_loop :: "Filter list \<Rightarrow> string \<Rightarrow> bool" where
  "passesFilters_loop [] text = True"
| "passesFilters_loop (fltr # filters) text =
     (if \<not> flt_Enabled fltr then passesFilters_loop filters text
      else
        (case flt_Type fltr of
           FilterTypeKeywords \<Rightarrow>
             (let matches = lo_ContainsBy (flt_Keywords fltr) (\<lambda>keyword. containsKeyword text keyword)
              in if \<not> matches then False else passesFilters_loop filters text)
         | FilterTypeExcludeKeywords \<Rightarrow>
             (if lo_ContainsBy (flt_Keywords fltr) (\<lambda>keyword. containsKeyword text keyword)
              then False else passesFilters_loop filters text)
         | FilterTypeAuthor \<Rightarrow> passesFilters_loop filters text))"

text \<open>
  \<^verbatim>\<open>
  func (h *BotHandler) passesFilters(channel *Channel, msg *models.Message) bool {
      if len(channel.Filters) == 0 { return true }
      text := msg.Text
      if text == "" && msg.Caption != "" { text = msg.Caption }
      for _, filter := range channel.Filters { ... }
      return true
  }
  \<close>
\<close>

definition passesFilters :: "Channel \<Rightarrow> tg_Message \<Rightarrow> bool" where
  "passesFilters channel msg =
     (if length (ch_Filters channel) = 0 then True
      else
        (let text = (if tg_Text msg = [] \<and> tg_Caption msg \<noteq> [] then tg_Caption msg
                     else tg_Text msg)
         in passesFilters_loop (ch_Filters channel) text))"

subsection \<open>channel/service/service.go: Service.passesFilters, contains, containsSubstring, toLower\<close>

text \<open>
  \<^verbatim>\<open>
  func toLower(s string) string {
      result := make([]byte, len(s))
      for i := 0; i < len(s); i++ {
          c := s[i]
          if c >= 'A' && c <= 'Z' { result[i] = c + 32 } else { result[i] = c }
      }
      return string(result)
  }
  \<close>
  The loop writes position \<open>i\<close> of the result from position \<open>i\<close> of \<open>s\<close> alone.
\<close>

fun toLower :: "string \<Rightarrow> string" where
  "toLower [] = []"
| "toLower (c # s) =
     (if (of_char c :: int) \<ge> of_char CHR ''A'' \<and> (of_char c :: int) \<le> of_char CHR ''Z''
      then char_of (of_char c + (32 :: int)) else c) # toLower s"

text \<open>
  \<^verbatim>\<open>
  func containsSubstring(text, substr string) bool {
      textLower := toLower(text)
      substrLower := toLower(substr)
      for i := 0; i <= len(textLower)-len(substrLower); i++ {
          if textLower[i:i+len(substrLower)] == substrLower { return true }
      }
      return false
  }
  \<close>
  The loop condition is a comparison of signed integers; while it holds, the slice
  \<open>textLower[i:i+len(substrLower)]\<close> is in range.
\<close>

function containsSubstring_loop :: "string \<Rightarrow> string \<Rightarrow> nat \<Rightarrow> bool" where
  "containsSubstring_loop textLower substrLower i =
     (if int i \<le> int (length textLower) - int (length substrLower) then
        (if take (length substrLower) (drop i textLower) = substrLower then True
         else containsSubstring_loop textLower substrLower (i + 1))
      else False)"
  by pat_completeness auto
termination
  by (relation "measure (\<lambda>(textLower, substrLower, i). Suc (length textLower) - i)") auto

declare containsSubstring_loop.simps [simp del]

definition containsSubstring :: "string \<Rightarrow> string \<Rightarrow> bool" where
  "containsSubstring text substr = containsSubstring_loop (toLower text) (toLower substr) 0"

text \<open>
  \<^verbatim>\<open>
  func contains(text, keyword string) bool {
      return len(keyword) > 0 && len(text) >= len(keyword) &&
          (text == keyword || containsSubstring(text, keyword))
  }
  \<close>
\<close>

definition contains :: "string \<Rightarrow> string \<Rightarrow> bool" where
  "contains text keyword =
     (length keyword > 0 \<and> length text \<ge> length keyword \<and>
      (text = keyword \<or> containsSubstring text keyword))"

text \<open>The two keyword loops of \<open>Service.passesFilters\<close>: the first sets \<open>matches\<close> and
  breaks at the first keyword that is contained, the second returns \<open>false\<close> there.\<close>

fun any_keyword :: "string \<Rightarrow> string list \<Rightarrow> bool" where
  "any_keyword text [] = False"
| "any_keyword text (keyword # keywords) =
     (if contains text keyword then True else any_keyword text keywords)"

fun Service_passesFilters_loop :: "Filter list \<Rightarrow> string \<Rightarrow> bool" where
  "Service_passesFilters_loop [] text = True"
| "Service_passesFilters_loop (fltr # filters) text =
     (if \<not> flt_Enabled fltr then Service_passesFilters_loop filters text
      else
        (case flt_Type fltr of
           FilterTypeKeywords \<Rightarrow>
             (let matches = any_keyword text (flt_Keywords fltr)
              in if \<not> matches then False else Service_passesFilters_loop filters text)
         | FilterTypeExcludeKeywords \<Rightarrow>
             (if any_keyword text (flt_Keywords fltr) then False
              else Service_passesFilters_loop filters text)
         | FilterTypeAuthor \<Rightarrow> Service_passesFilters_loop filters text))"

definition Service_passesFilters :: "Channel \<Rightarrow> string \<Rightarrow> bool" where
  "Service_passesFilters channel text =
     (if length (ch_Filters channel) = 0 then True
      else Service_passesFilters_loop (ch_Filters channel) text)"

subsection \<open>The filter engine as the specification words it\<close>

text \<open>
  The reference the filter evaluation is compared with. A keyword is a case-insensitive
  substring of a text when the lower-cased keyword is a contiguous part of the lower-cased
  text; the empty keyword matches nothing. The filters are taken in sequence order: a disabled
  filter is skipped, an enabled include filter rejects unless some keyword matches, an enabled
  exclude filter rejects if some keyword matches, an author filter always passes, and a
  rejection is final. The text that is filtered is the post's text, or its caption when the
  text is empty.
\<close>

definition ci_substring :: "string \<Rightarrow> string \<Rightarrow> bool" where
  "ci_substring keyword text = sublist (strings_ToLower keyword) (strings_ToLower text)"

definition keyword_matches :: "string \<Rightarrow> string \<Rightarrow> bool" where
  "keyword_matches keyword text = (keyword \<noteq> [] \<and> ci_substring keyword text)"

fun passes_reference :: "Filter list \<Rightarrow> string \<Rightarrow> bool" where
  "passes_reference [] text = True"
| "passes_reference (f # fs) text =
     (if \<not> flt_Enabled f then passes_reference fs text
      else
        (case flt_Type f of
           FilterTypeKeywords \<Rightarrow>
             (\<exists>k \<in> set (flt_Keywords f). keyword_matches k text) \<and> passes_reference fs text
         | FilterTypeExcludeKeywords \<Rightarrow>
             \<not> (\<exists>k \<in> set (flt_Keywords f). keyword_matches k text) \<and> passes_reference fs text
         | FilterTypeAuthor \<Rightarrow> passes_reference fs text))"

definition effective_text :: "tg_Message \<Rightarrow> string" where
  "effective_text msg = (if tg_Text msg \<noteq> [] then tg_Text msg else tg_Caption msg)"

section \<open>The file store\<close>

text \<open>
  Both versions keep one JSON file per entity under the storage root: a channel in
  \<open>channels/<id>.json\<close>, a message in \<open>messages/<channelID>/<id>.json\<close>. The model holds the
  \<open>channels\<close> directory and the subdirectories of \<open>messages\<close> as association lists from entry
  name to node, changed with \<open>AList.update\<close>; the order of a list is not observable, since
  \<open>os.ReadDir\<close> sorts. A node is a subdirectory (\<open>Dir\<close>), a regular file whose bytes
  \<open>json.Unmarshal\<close> rejects (\<open>Corrupt\<close>), or a regular file that \<open>json.Unmarshal\<close> decodes to
  the given value (\<open>Doc\<close>); \<open>json.MarshalIndent\<close> of a value writes such a file. Paths are
  modelled by their components: a channel id is taken as the name of one directory entry, as
  the decimal chat ids are that the handlers build.

  The calls of \<open>log/slog\<close> are recorded in the world, in order, by level and message.
\<close>

datatype 'a node = Dir | Corrupt | Doc 'a

type_synonym 'a directory = "(string \<times> 'a node) list"

datatype level = LevelDebug | LevelInfo | LevelError

record world =
  channel_files :: "Channel directory"
  message_dirs :: "(string \<times> Message directory) list"
  slog :: "(level \<times> string) list"

definition slog_call :: "level \<Rightarrow> string \<Rightarrow> world \<Rightarrow> world" where
  "slog_call lvl msg w = w\<lparr>slog := slog w @ [(lvl, msg)]\<rparr>"

text \<open>
  Errors. \<open>ErrNotExist\<close> is the error for which \<open>os.IsNotExist\<close> holds, \<open>ErrIO\<close> any other
  error of the operating system; \<open>Wrap context err\<close> is \<open>oops.With("context", context).Wrap(err)\<close>
  (\<open>fmt.Errorf("...: %w", err)\<close> in the flat package).
\<close>

datatype error =
  ErrNotExist | ErrIO | ErrMarshal | ErrUnmarshal | ErrChannelNotFound | Wrap string error

text \<open>
  What the environment decides: which calls of the operating system fail, by path below the
  storage root, and whether \<open>json.MarshalIndent\<close> fails (it can for a \<open>time.Time\<close> whose year
  is outside \<open>0..9999\<close>). A failed \<open>os.WriteFile\<close> leaves the file as it was (the open failed)
  or leaves a file that does not decode (the write was cut short).
\<close>

datatype write_outcome = WriteOk | WriteFailsUntouched | WriteFailsCorrupt

record faults =
  MkdirAll_fails :: "string list \<Rightarrow> bool"
  MarshalIndent_channel_fails :: "Channel \<Rightarrow> bool"
  MarshalIndent_message_fails :: "Message \<Rightarrow> bool"
  WriteFile_outcome :: "string list \<Rightarrow> write_outcome"
  ReadFile_fails :: "string list \<Rightarrow> bool"
  ReadDir_fails :: "string list \<Rightarrow> bool"

definition os_WriteFile ::
  "write_outcome \<Rightarrow> string \<Rightarrow> 'a \<Rightarrow> 'a directory \<Rightarrow> error option \<times> 'a directory" where
  "os_WriteFile outcome name data d =
     (if map_of d name = Some Dir then (Some ErrIO, d)
      else
        (case outcome of
           WriteOk \<Rightarrow> (None, AList.update name (Doc data) d)
         | WriteFailsUntouched \<Rightarrow> (Some ErrIO, d)
         | WriteFailsCorrupt \<Rightarrow> (Some ErrIO, AList.update name Corrupt d)))"

definition os_ReadFile :: "bool \<Rightarrow> string \<Rightarrow> 'a directory \<Rightarrow> error + 'a node" where
  "os_ReadFile fails name d =
     (case map_of d name of
        None \<Rightarrow> Inl ErrNotExist
      | Some Dir \<Rightarrow> Inl ErrIO
      | Some file \<Rightarrow> if fails then Inl ErrIO else Inr file)"

definition json_Unmarshal :: "'a node \<Rightarrow> error + 'a" where
  "json_Unmarshal file = (case file of Doc v \<Rightarrow> Inr v | _ \<Rightarrow> Inl ErrUnmarshal)"

text \<open>\<open>os.ReadDir\<close> returns the entries of a directory sorted by file name; a directory that
  does not exist is \<open>None\<close>.\<close>

fun insert_entry :: "string \<times> 'a \<Rightarrow> (string \<times> 'a) list \<Rightarrow> (string \<times> 'a) list" where
  "insert_entry e [] = [e]"
| "insert_entry e (d # ds) =
     (if string_less (fst d) (fst e) then d # insert_entry e ds else e # d # ds)"

definition sorted_by_name :: "(string \<times> 'a) list \<Rightarrow> (string \<times> 'a) list" where
  "sorted_by_name d = foldr insert_entry d []"

definition os_ReadDir :: "bool \<Rightarrow> 'a directory option \<Rightarrow> error + 'a directory" where
  "os_ReadDir fails dir =
     (case dir of
        None \<Rightarrow> Inl ErrNotExist
      | Some d \<Rightarrow> if fails then Inl ErrIO else Inr (sorted_by_name d))"

text \<open>\<open>os.MkdirAll\<close> of \<open>messages/<channelID>\<close>: creates the directory, empty, unless it
  exists.\<close>

definition os_MkdirAll ::
  "string \<Rightarrow> (string \<times> 'a directory) list \<Rightarrow> (string \<times> 'a directory) list" where
  "os_MkdirAll name dirs = (case map_of dirs name of None \<Rightarrow> dirs @ [(name, [])] | Some d \<Rightarrow> dirs)"

definition entries_of :: "(string \<times> 'a directory) list \<Rightarrow> string \<Rightarrow> 'a directory" where
  "entries_of dirs name = (case map_of dirs name of None \<Rightarrow> [] | Some d \<Rightarrow> d)"

subsection \<open>channel/repository: FileStorage.SaveChannel, FileStorage.GetChannel\<close>

text \<open>
  \<^verbatim>\<open>
  func (s *FileStorage) SaveChannel(channel *domain.Channel) error {
      path := filepath.Join(s.basePath, channel.ID+".json")
      data, err := json.MarshalIndent(channel, "", "  ")
      if err != nil { return oops...Wrap(err) }
      return os.WriteFile(path, data, 0644)
  }
  \<close>
  \<open>storage.go\<close> of the flat package holds the same functions over the same layout, with
  \<open>fmt.Errorf\<close> for \<open>oops\<close>; its callers only compare the error with \<open>nil\<close>, so the
  definitions of this section stand for both.
\<close>

definition SaveChannel :: "faults \<Rightarrow> Channel \<Rightarrow> world \<Rightarrow> error option \<times> world" where
  "SaveChannel env channel w =
     (let name = ch_ID channel @ ''.json'' in
      if MarshalIndent_channel_fails env channel
      then (Some (Wrap ''failed to marshal channel'' ErrMarshal), w)
      else
        (case os_WriteFile (WriteFile_outcome env [''channels'', name]) name channel
                (channel_files w) of
           (err, d) \<Rightarrow> (err, w\<lparr>channel_files := d\<rparr>)))"

definition GetChannel :: "faults \<Rightarrow> world \<Rightarrow> string \<Rightarrow> error + Channel" where
  "GetChannel env w channelID =
     (let name = channelID @ ''.json'' in
      case os_ReadFile (ReadFile_fails env [''channels'', name]) name (channel_files w) of
        Inl err \<Rightarrow>
          if err = ErrNotExist then Inl ErrChannelNotFound
          else Inl (Wrap ''failed to read channel'' err)
      | Inr data \<Rightarrow>
          (case json_Unmarshal data of
             Inl err \<Rightarrow> Inl (Wrap ''failed to unmarshal channel'' err)
           | Inr channel \<Rightarrow> Inr channel))"

subsection \<open>message/repository: FileStorage.SaveMessage, FileStorage.GetMessages\<close>

text \<open>
  \<^verbatim>\<open>
  func (s *FileStorage) SaveMessage(message *domain.Message) error {
      msgDir := filepath.Join(s.basePath, message.ChannelID)
      if err := os.MkdirAll(msgDir, 0755); err != nil { return oops...Wrap(err) }
      path := filepath.Join(msgDir, fmt.Sprintf("%d.json", message.ID))
      data, err := json.MarshalIndent(message, "", "  ")
      if err != nil { return oops...Wrap(err) }
      return os.WriteFile(path, data, 0644)
  }
  \<close>
\<close>

definition SaveMessage :: "faults \<Rightarrow> Message \<Rightarrow> world \<Rightarrow> error option \<times> world" where
  "SaveMessage env message w =
     (let msgDir = [''messages'', msg_ChannelID message] in
      if MkdirAll_fails env msgDir
      then (Some (Wrap ''failed to create message directory'' ErrIO), w)
      else
        (let dirs = os_MkdirAll (msg_ChannelID message) (message_dirs w);
             name = Sprintf_d (msg_ID message) @ ''.json''
         in
           if MarshalIndent_message_fails env message
           then (Some (Wrap ''failed to marshal message'' ErrMarshal), w\<lparr>message_dirs := dirs\<rparr>)
           else
             (case os_WriteFile (WriteFile_outcome env (msgDir @ [name])) name message
                     (entries_of dirs (msg_ChannelID message)) of
                (err, d) \<Rightarrow>
                  (err, w\<lparr>message_dirs := AList.update (msg_ChannelID message) d dirs\<rparr>))))"

text \<open>
  \<^verbatim>\<open>
  var messages []*domain.Message
  count := 0
  for i := len(entries) - 1; i >= 0 && count < limit; i-- {
      entry := entries[i]
      if entry.IsDir() || filepath.Ext(entry.Name()) != ".json" { continue }
      path := filepath.Join(msgDir, entry.Name())
      data, err := os.ReadFile(path)
      if err != nil { continue }
      var message domain.Message
      if err := json.Unmarshal(data, &message); err != nil { continue }
      messages = append(messages, &message)
      count++
  }
  return messages, nil
  \<close>
  The index runs from the last entry down to the first, so the loop is a recursion over the
  reversed listing.
\<close>

fun GetMessages_loop ::
  "faults \<Rightarrow> string list \<Rightarrow> Message directory \<Rightarrow> int \<Rightarrow> int \<Rightarrow> Message list \<Rightarrow> Message list" where
  "GetMessages_loop env msgDir [] count limit msgs = msgs"
| "GetMessages_loop env msgDir (entry # entries) count limit msgs =
     (if \<not> count < limit then msgs
      else if snd entry = Dir \<or> filepath_Ext (fst entry) \<noteq> ''.json''
      then GetMessages_loop env msgDir entries count limit msgs
      else if ReadFile_fails env (msgDir @ [fst entry])
      then GetMessages_loop env msgDir entries count limit msgs
      else
        (case json_Unmarshal (snd entry) of
           Inl err \<Rightarrow> GetMessages_loop env msgDir entries count limit msgs
         | Inr message \<Rightarrow>
             GetMessages_loop env msgDir entries (count + 1) limit (msgs @ [message])))"

definition GetMessages :: "faults \<Rightarrow> world \<Rightarrow> string \<Rightarrow> int \<Rightarrow> error + Message list" where
  "GetMessages env w channelID limit =
     (let msgDir = [''messages'', channelID] in
      case os_ReadDir (ReadDir_fails env msgDir) (map_of (message_dirs w) channelID) of
        Inl err \<Rightarrow>
          if err = ErrNotExist then Inr []
          else Inl (Wrap ''failed to read messages directory'' err)
      | Inr entries \<Rightarrow> Inr (GetMessages_loop env msgDir (rev entries) 0 limit []))"

subsection \<open>What the store holds under a key\<close>

text \<open>
  The records stored under \<open>(channelID, messageID)\<close>: the nodes named \<open><messageID>.json\<close> in
  the directories named \<open>channelID\<close>. A file system has one entry per name in a directory;
  \<open>well_formed\<close> says so of the association lists.
\<close>

definition records_at :: "world \<Rightarrow> string \<Rightarrow> int \<Rightarrow> Message node list" where
  "records_at w channelID messageID =
     map snd (filter (\<lambda>entry. fst entry = Sprintf_d messageID @ ''.json'')
                (concat (map snd (filter (\<lambda>dir. fst dir = channelID) (message_dirs w)))))"

definition well_formed :: "world \<Rightarrow> bool" where
  "well_formed w =
     (distinct (map fst (channel_files w)) \<and> distinct (map fst (message_dirs w)) \<and>
      list_all (\<lambda>dir. distinct (map fst (snd dir))) (message_dirs w))"

section \<open>Ingestion\<close>

subsection \<open>channel/service/service.go: Service.ProcessMessage\<close>

text \<open>
  \<^verbatim>\<open>
  func (s *Service) ProcessMessage(channel *domain.Channel, msgText string, msgDate int64,
          msgID int64, author string, media []messageDomain.Media, link string) error {
      if !s.passesFilters(channel, msgText) { return nil }
      message := &messageDomain.Message{ID: msgID, ChannelID: channel.ID,
          ChannelName: channel.Title, Text: msgText, Date: time.Unix(msgDate, 0),
          Author: author, Media: media, Link: link}
      if err := s.messageRepo.SaveMessage(message); err != nil {
          return oops...Wrap(err)
      }
      channel.LastUpdate = time.Now()
      if err := s.channelRepo.SaveChannel(channel); err != nil {
          slog.Error("Failed to update channel last update time", ...)
      }
      return nil
  }
  \<close>
  \<open>time.Now()\<close> is the argument \<open>now\<close>. The function writes to the channel it is given through
  a pointer; the channel as the call leaves it is part of the result.
\<close>

definition ProcessMessage ::
  "faults \<Rightarrow> time \<Rightarrow> Channel \<Rightarrow> string \<Rightarrow> int \<Rightarrow> int \<Rightarrow> string \<Rightarrow> Media list \<Rightarrow> string \<Rightarrow> world
     \<Rightarrow> error option \<times> Channel \<times> world" where
  "ProcessMessage env now channel msgText msgDate msgID author media link w =
     (if \<not> Service_passesFilters channel msgText then (None, channel, w)
      else
        (let message = \<lparr>msg_ID = msgID, msg_ChannelID = ch_ID channel,
                         msg_ChannelName = ch_Title channel, msg_Text = msgText,
                         msg_Date = msgDate, msg_Author = author, msg_Media = media,
                         msg_Link = link\<rparr>
         in
           case SaveMessage env message w of
             (Some err, w1) \<Rightarrow> (Some (Wrap ''failed to save message'' err), channel, w1)
           | (None, w1) \<Rightarrow>
               (let channel1 = channel\<lparr>ch_LastUpdate := now\<rparr> in
                case SaveChannel env channel1 w1 of
                  (Some err, w2) \<Rightarrow>
                    (None, channel1,
                     slog_call LevelError ''Failed to update channel last update time'' w2)
                | (None, w2) \<Rightarrow> (None, channel1, w2))))"

subsection \<open>getAuthorName and extractMedia (the same in both handlers)\<close>

definition getAuthorName :: "tg_Message \<Rightarrow> string" where
  "getAuthorName msg =
     (case tg_From msg of
        Some u \<Rightarrow>
          if tgu_Username u \<noteq> [] then ''@'' @ tgu_Username u
          else if tgu_FirstName u \<noteq> [] then tgu_FirstName u
          else ''Unknown''
      | None \<Rightarrow> ''Unknown'')"

definition new_Media :: "MediaType \<Rightarrow> string \<Rightarrow> Media" where
  "new_Media t fileID =
     \<lparr>md_Type = t, md_FileID = fileID, md_URL = [], md_Thumbnail = [], md_Caption = []\<rparr>"

definition extractMedia :: "tg_Message \<Rightarrow> Media list" where
  "extractMedia msg =
     (let media0 = [];
          media1 = (if length (tg_Photo msg) > 0
                    then media0 @ [new_Media MediaTypePhoto (last (tg_Photo msg))] else media0);
          media2 = (case tg_Video msg of
                      Some fileID \<Rightarrow> media1 @ [new_Media MediaTypeVideo fileID] | None \<Rightarrow> media1);
          media3 = (case tg_Document msg of
                      Some fileID \<Rightarrow> media2 @ [new_Media MediaTypeDocument fileID]
                    | None \<Rightarrow> media2);
          media4 = (case tg_Audio msg of
                      Some fileID \<Rightarrow> media3 @ [new_Media MediaTypeAudio fileID] | None \<Rightarrow> media3)
      in media4)"

definition post_link :: "Channel \<Rightarrow> tg_Message \<Rightarrow> string" where
  "post_link channel msg = ''https://t.me/'' @ ch_Username channel @ ''/'' @ Sprintf_d (tg_ID msg)"

subsection \<open>transport/telegram/handler.go: Handler.processChannelPost\<close>

text \<open>
  \<^verbatim>\<open>
  func (h *Handler) processChannelPost(ctx context.Context, b *bot.Bot, msg *models.Message) {
      if msg == nil { return }
      channelID := fmt.Sprintf("%d", msg.Chat.ID)
      channel, err := h.channelService.GetChannel(channelID)
      if err != nil { return }
      if !channel.IsActive { return }
      text := msg.Text
      if text == "" && msg.Caption != "" { text = msg.Caption }
      media := extractMedia(msg); author := getAuthorName(msg)
      link := fmt.Sprintf("https://t.me/%s/%d", channel.Username, msg.ID)
      if err := h.channelService.ProcessMessage(channel, text, int64(msg.Date),
              int64(msg.ID), author, media, link); err != nil {
          slog.Error("Error processing message", ...)
          return
      }
      slog.Info("New message from channel", ...)
  }
  \<close>
  The handler returns nothing: all it does is in the world it leaves.
\<close>

definition Handler_processChannelPost ::
  "faults \<Rightarrow> time \<Rightarrow> tg_Message option \<Rightarrow> world \<Rightarrow> world" where
  "Handler_processChannelPost env now post w =
     (case post of
        None \<Rightarrow> w
      | Some msg \<Rightarrow>
          (let channelID = Sprintf_d (tg_Chat_ID msg) in
           case GetChannel env w channelID of
             Inl err \<Rightarrow> w
           | Inr channel \<Rightarrow>
               if \<not> ch_IsActive channel then w
               else
                 (let text = (if tg_Text msg = [] \<and> tg_Caption msg \<noteq> [] then tg_Caption msg
                              else tg_Text msg);
                      media = extractMedia msg;
                      author = getAuthorName msg;
                      link = post_link channel msg
                  in
                    case ProcessMessage env now channel text (tg_Date msg) (tg_ID msg) author
                           media link w of
                      (Some err, channel1, w1) \<Rightarrow>
                        slog_call LevelError ''Error processing message'' w1
                    | (None, channel1, w1) \<Rightarrow>
                        slog_call LevelInfo ''New message from channel'' w1)))"

subsection \<open>bot_handler.go: BotHandler.processChannelPost\<close>

text \<open>
  \<^verbatim>\<open>
  func (h *BotHandler) processChannelPost(ctx context.Context, b *bot.Bot, msg *models.Message) {
      if msg == nil { return }
      channelID := fmt.Sprintf("%d", msg.Chat.ID)
      channel, err := h.storage.GetChannel(channelID)
      if err != nil { return }
      if !channel.IsActive { return }
      if h.channelMonitor != nil {
          message := &Message{ID: int64(msg.ID), ChannelID: channelID,
              ChannelName: channel.Title, Text: msg.Text, Date: time.Unix(int64(msg.Date), 0),
              Author: getAuthorName(msg), Media: extractMedia(msg),
              Link: fmt.Sprintf("https://t.me/%s/%d", channel.Username, msg.ID)}
          if !h.passesFilters(channel, msg) { return }
          if err := h.storage.SaveMessage(message); err != nil {
              slog.Error("Error saving message", ...)
              return
          }
          if h.feedService != nil {
              if err := h.feedService.UpdateFeed(channelID); err != nil { slog.Error(...) }
          }
          slog.Info("New message from channel", ...)
      }
  }
  \<close>
  \<open>FeedService.UpdateFeed\<close> logs \<open>"Feed update requested"\<close> at debug level and returns
  \<open>nil\<close>. The two pointers of the handler that the function tests are the record
  \<open>BotHandler\<close>.
\<close>

record BotHandler =
  has_channelMonitor :: bool
  has_feedService :: bool

definition UpdateFeed :: "string \<Rightarrow> world \<Rightarrow> error option \<times> world" where
  "UpdateFeed channelID w = (None, slog_call LevelDebug ''Feed update requested'' w)"

definition BotHandler_processChannelPost ::
  "BotHandler \<Rightarrow> faults \<Rightarrow> tg_Message option \<Rightarrow> world \<Rightarrow> world" where
  "BotHandler_processChannelPost h env post w =
     (case post of
        None \<Rightarrow> w
      | Some msg \<Rightarrow>
          (let channelID = Sprintf_d (tg_Chat_ID msg) in
           case GetChannel env w channelID of
             Inl err \<Rightarrow> w
           | Inr channel \<Rightarrow>
               if \<not> ch_IsActive channel then w
               else if has_channelMonitor h then
                 (let message = \<lparr>msg_ID = tg_ID msg, msg_ChannelID = channelID,
                                  msg_ChannelName = ch_Title channel, msg_Text = tg_Text msg,
                                  msg_Date = tg_Date msg, msg_Author = getAuthorName msg,
                                  msg_Media = extractMedia msg, msg_Link = post_link channel msg\<rparr>
                  in
                    if \<not> passesFilters channel msg then w
                    else
                      (case SaveMessage env message w of
                         (Some err, w1) \<Rightarrow> slog_call LevelError ''Error saving message'' w1
                       | (None, w1) \<Rightarrow>
                           (let w2 = (if has_feedService h
                                      then (case UpdateFeed channelID w1 of
                                              (Some err, w') \<Rightarrow>
                                                slog_call LevelError ''Error updating feed'' w'
                                            | (None, w') \<Rightarrow> w')
                                      else w1)
                            in slog_call LevelInfo ''New message from channel'' w2)))
               else w))"

section \<open>Feed generation\<close>

subsection \<open>feed_service.go and feed/service: truncate, escapeHTML\<close>

text \<open>
  \<^verbatim>\<open>
  func truncate(s string, maxLen int) string {
      if len(s) <= maxLen { return s }
      return s[:maxLen] + "..."
  }
  \<close>
  When \<open>len(s) > maxLen\<close> the slice \<open>s[:maxLen]\<close> is in range exactly when \<open>0 \<le> maxLen\<close>.
\<close>

definition truncate :: "string \<Rightarrow> int \<Rightarrow> go_panic + string" where
  "truncate s maxLen =
     (if int (length s) \<le> maxLen then Inr s
      else if maxLen < 0 then Inl SliceBoundsOutOfRange
      else Inr (take (nat maxLen) s @ ''...''))"

text \<open>
  \<^verbatim>\<open>
  func escapeHTML(s string) string {
      result := make([]rune, 0, len(s))
      for _, r := range s {
          switch r {
          case '<':  result = append(result, []rune("&lt;")...)
          case '>':  result = append(result, []rune("&gt;")...)
          case '&':  result = append(result, []rune("&amp;")...)
          case '"':  result = append(result, []rune("&quot;")...)
          case '\'': result = append(result, []rune("&#39;")...)
          default:   result = append(result, r)
          }
      }
      return string(result)
  }
  \<close>
\<close>

definition escape_rune :: "rune \<Rightarrow> rune list" where
  "escape_rune r =
     (if r = of_char CHR ''<'' then runes_of ''&lt;''
      else if r = of_char CHR ''>'' then runes_of ''&gt;''
      else if r = of_char CHR ''&'' then runes_of ''&amp;''
      else if r = of_char CHR 0x22 then runes_of ''&quot;''
      else if r = of_char CHR 0x27 then runes_of ''&#39;''
      else [r])"

definition escapeHTML :: "string \<Rightarrow> string" where
  "escapeHTML s = string_of_runes (fold (\<lambda>r result. result @ escape_rune r) (runes_of s) [])"

subsection \<open>messageToFeedItem and GenerateFeed\<close>

text \<open>
  \<^verbatim>\<open>
  description := msg.Text
  if description == "" { description = "No text content" }
  if len(msg.Media) > 0 {
      description += "\n\nMedia:\n"
      for _, media := range msg.Media {
          description += fmt.Sprintf("- %s: %s\n", media.Type, media.FileID)
          if media.Caption != "" { description += fmt.Sprintf("  Caption: %s\n", media.Caption) }
      }
  }
  content := fmt.Sprintf("<p>%s</p>", escapeHTML(description))
  if len(msg.Media) > 0 {
      content += "<p><strong>Media attachments:</strong></p><ul>"
      for _, media := range msg.Media {
          content += fmt.Sprintf("<li>%s: %s</li>", media.Type, media.FileID)
      }
      content += "</ul>"
  }
  item := &feeds.Item{Title: truncate(msg.Text, 100), Link: &feeds.Link{Href: msg.Link},
      Description: description, Content: content, Author: &feeds.Author{Name: msg.Author},
      Created: msg.Date, Id: fmt.Sprintf("%s-%d", msg.ChannelID, msg.ID)}
  \<close>
  The two services (\<open>FeedService\<close> of the flat package, \<open>feed/service\<close> of the modular one)
  have the same text here.
\<close>

text \<open>The bodies of the two loops over \<open>msg.Media\<close>: each appends to the string built so
  far.\<close>

definition description_step :: "Media \<Rightarrow> string \<Rightarrow> string" where
  "description_step media description =
     (let d1 = description @ ''- '' @ MediaType_String (md_Type media) @ '': '' @ md_FileID media
                 @ [CHR 0x0A]
      in if md_Caption media \<noteq> [] then d1 @ ''  Caption: '' @ md_Caption media @ [CHR 0x0A]
         else d1)"

definition content_step :: "Media \<Rightarrow> string \<Rightarrow> string" where
  "content_step media content =
     content @ ''<li>'' @ MediaType_String (md_Type media) @ '': '' @ md_FileID media @ ''</li>''"

definition item_description :: "Message \<Rightarrow> string" where
  "item_description msg =
     (let description = (if msg_Text msg = [] then ''No text content'' else msg_Text msg) in
      if length (msg_Media msg) > 0 then
        fold description_step (msg_Media msg)
          (description @ [CHR 0x0A, CHR 0x0A] @ ''Media:'' @ [CHR 0x0A])
      else description)"

definition item_content :: "Message \<Rightarrow> string" where
  "item_content msg =
     (let content = ''<p>'' @ escapeHTML (item_description msg) @ ''</p>'' in
      if length (msg_Media msg) > 0 then
        fold content_step (msg_Media msg)
          (content @ ''<p><strong>Media attachments:</strong></p><ul>'') @ ''</ul>''
      else content)"

definition messageToFeedItem :: "Message \<Rightarrow> string \<Rightarrow> go_panic + Item" where
  "messageToFeedItem msg baseURL =
     (case truncate (msg_Text msg) 100 of
        Inl p \<Rightarrow> Inl p
      | Inr title \<Rightarrow>
          Inr \<lparr>item_Title = title, item_Link = msg_Link msg,
               item_Description = item_description msg, item_Content = item_content msg,
               item_Author = msg_Author msg, item_Created = msg_Date msg,
               item_Id = msg_ChannelID msg @ ''-'' @ Sprintf_d (msg_ID msg)\<rparr>)"

text \<open>
  \<^verbatim>\<open>
  func (s *Service) GenerateFeed(channelID string, baseURL string) (*feeds.Feed, error) {
      channel, err := s.channelRepo.GetChannel(channelID)
      if err != nil { return nil, oops...Wrap(err) }
      messages, err := s.messageRepo.GetMessages(channelID, 50) // Get last 50 messages
      if err != nil { return nil, oops...Wrap(err) }
      feed := &feeds.Feed{Title: fmt.Sprintf("%s - RSS Feed", channel.Title),
          Link: &feeds.Link{Href: fmt.Sprintf("%s/rss/%s", baseURL, channel.ID)},
          Description: fmt.Sprintf("RSS feed for Telegram channel: %s", channel.Title),
          Author: &feeds.Author{Name: channel.Username},
          Created: channel.AddedAt, Updated: channel.LastUpdate}
      var items []*feeds.Item
      for _, msg := range messages {
          item := s.messageToFeedItem(msg, baseURL)
          items = append(items, item)
      }
      feed.Items = items
      return feed, nil
  }
  \<close>
\<close>

fun items_loop :: "Message list \<Rightarrow> string \<Rightarrow> Item list \<Rightarrow> go_panic + Item list" where
  "items_loop [] baseURL items = Inr items"
| "items_loop (msg # msgs) baseURL items =
     (case messageToFeedItem msg baseURL of
        Inl p \<Rightarrow> Inl p
      | Inr item \<Rightarrow> items_loop msgs baseURL (items @ [item]))"

definition GenerateFeed :: "faults \<Rightarrow> world \<Rightarrow> string \<Rightarrow> string \<Rightarrow> go_panic + error + Feed" where
  "GenerateFeed env w channelID baseURL =
     (case GetChannel env w channelID of
        Inl err \<Rightarrow> Inr (Inl (Wrap ''channel not found'' err))
      | Inr channel \<Rightarrow>
          (case GetMessages env w channelID 50 of
             Inl err \<Rightarrow> Inr (Inl (Wrap ''failed to get messages'' err))
           | Inr msgs \<Rightarrow>
               (case items_loop msgs baseURL [] of
                  Inl p \<Rightarrow> Inl p
                | Inr items \<Rightarrow>
                    Inr (Inr \<lparr>feed_Title = ch_Title channel @ '' - RSS Feed'',
                              feed_Link = baseURL @ ''/rss/'' @ ch_ID channel,
                              feed_Description =
                                ''RSS feed for Telegram channel: '' @ ch_Title channel,
                              feed_Author = ch_Username channel,
                              feed_Created = ch_AddedAt channel,
                              feed_Updated = ch_LastUpdate channel,
                              feed_Items = items\<rparr>))))"

subsection \<open>The entry content as the specification words it\<close>

text \<open>
  The byte-wise escape of the five characters, the human-readable line of one attachment in
  the entry body, and the HTML list of attachments that follows the paragraph when the message
  has media.
\<close>

definition escape_byte :: "char \<Rightarrow> string" where
  "escape_byte c =
     (if c = CHR ''<'' then ''&lt;''
      else if c = CHR ''>'' then ''&gt;''
      else if c = CHR ''&'' then ''&amp;''
      else if c = CHR 0x22 then ''&quot;''
      else if c = CHR 0x27 then ''&#39;''
      else [c])"

definition description_line :: "Media \<Rightarrow> string" where
  "description_line media =
     ''- '' @ MediaType_String (md_Type media) @ '': '' @ md_FileID media @ [CHR 0x0A]
       @ (if md_Caption media \<noteq> [] then ''  Caption: '' @ md_Caption media @ [CHR 0x0A] else [])"

definition media_attachments :: "Media list \<Rightarrow> string" where
  "media_attachments media =
     (if media = [] then []
      else ''<p><strong>Media attachments:</strong></p><ul>''
           @ concat (map (\<lambda>m. ''<li>'' @ MediaType_String (md_Type m) @ '': '' @ md_FileID m
                                  @ ''</li>'') media)
           @ ''</ul>'')"

section \<open>Example data\<close>

text \<open>
  An environment in which no call fails, the empty store, and the channel and message of the
  specification's round-trip example; the example store is built by the save operations
  themselves.
\<close>

definition no_faults :: faults where
  "no_faults =
     \<lparr>MkdirAll_fails = (\<lambda>path. False), MarshalIndent_channel_fails = (\<lambda>channel. False),
      MarshalIndent_message_fails = (\<lambda>message. False), WriteFile_outcome = (\<lambda>path. WriteOk),
      ReadFile_fails = (\<lambda>path. False), ReadDir_fails = (\<lambda>path. False)\<rparr>"

definition empty_world :: world where
  "empty_world = \<lparr>channel_files = [], message_dirs = [], slog = []\<rparr>"

definition test_channel :: Channel where
  "test_channel =
     \<lparr>ch_ID = ''42'', ch_Username = ''test_channel'', ch_Title = ''Test Channel'', ch_AddedBy = 1,
      ch_AddedAt = 1700000000, ch_Filters = [], ch_LastUpdate = 1700000000, ch_IsActive = True\<rparr>"

definition hello_message :: Message where
  "hello_message =
     \<lparr>msg_ID = 7, msg_ChannelID = ''42'', msg_ChannelName = ''Test Channel'',
      msg_Text = ''Hello <world>'', msg_Date = 1700000100, msg_Author = ''Unknown'',
      msg_Media = [], msg_Link = ''https://t.me/test_channel/7''\<rparr>"

definition channel_world :: world where
  "channel_world = snd (SaveChannel no_faults test_channel empty_world)"

definition test_world :: world where
  "test_world = snd (SaveMessage no_faults hello_message channel_world)"

definition hello_again :: Message where
  "hello_again = hello_message\<lparr>msg_Text := ''Hello again''\<rparr>"

definition hello_post :: tg_Message where
  "hello_post =
     \<lparr>tg_ID = 7, tg_Chat_ID = 42, tg_Text = ''Hello <world>'', tg_Caption = [],
      tg_Date = 1700000100, tg_From = None, tg_Photo = [], tg_Video = None,
      tg_Document = None, tg_Audio = None\<rparr>"

definition channel_write_fails :: faults where
  "channel_write_fails =
     no_faults\<lparr>WriteFile_outcome :=
       (\<lambda>path. if path = [''channels'', ''42.json''] then WriteFailsUntouched else WriteOk)\<rparr>"

definition inactive_world :: world where
  "inactive_world =
     snd (SaveChannel no_faults (test_channel\<lparr>ch_IsActive := False\<rparr>) empty_world)"

definition full_handler :: BotHandler where
  "full_handler = \<lparr>has_channelMonitor = True, has_feedService = True\<rparr>"

definition message_write_fails :: faults where
  "message_write_fails =
     no_faults\<lparr>WriteFile_outcome :=
       (\<lambda>path. if path = [''messages'', ''42'', ''7.json''] then WriteFailsUntouched else WriteOk)\<rparr>"

definition tech_channel :: Channel where
  "tech_channel =
     test_channel\<lparr>ch_Filters :=
       [\<lparr>flt_Type = FilterTypeKeywords, flt_Keywords = [''tech''], flt_Enabled = True\<rparr>]\<rparr>"

definition tech_post :: tg_Message where
  "tech_post = hello_post\<lparr>tg_Text := ''new tech release''\<rparr>"

definition cooking_post :: tg_Message where
  "cooking_post = hello_post\<lparr>tg_Text := [], tg_Caption := ''cooking tips''\<rparr>"

text \<open>
  A channel directory that holds the messages 9 to 59 (51 files), and a channel with an
  include filter for a Cyrillic keyword in lower case together with a post whose text is the
  same word with a capital first letter (the strings are their UTF-8 bytes).
\<close>

definition numbered_message :: "int \<Rightarrow> Message" where
  "numbered_message n =
     \<lparr>msg_ID = n, msg_ChannelID = ''42'', msg_ChannelName = [], msg_Text = [], msg_Date = n,
      msg_Author = [], msg_Media = [], msg_Link = []\<rparr>"

definition listed_world :: world where
  "listed_world =
     channel_world\<lparr>message_dirs :=
       [(''42'', map (\<lambda>n. (Sprintf_d n @ ''.json'', Doc (numbered_message n))) [9..59])]\<rparr>"

definition news_channel :: Channel where
  "news_channel =
     test_channel\<lparr>ch_Filters :=
       [\<lparr>flt_Type = FilterTypeKeywords,
         flt_Keywords = [[CHR 0xD0, CHR 0xBD, CHR 0xD0, CHR 0xBE, CHR 0xD0, CHR 0xB2, CHR 0xD0, CHR 0xBE,
                          CHR 0xD1, CHR 0x81, CHR 0xD1, CHR 0x82, CHR 0xD0, CHR 0xB8]],
         flt_Enabled = True\<rparr>]\<rparr>"

definition news_post :: tg_Message where
  "news_post =
     hello_post\<lparr>tg_Text :=
       [CHR 0xD0, CHR 0x9D, CHR 0xD0, CHR 0xBE, CHR 0xD0, CHR 0xB2, CHR 0xD0, CHR 0xBE,
        CHR 0xD1, CHR 0x81, CHR 0xD1, CHR 0x82, CHR 0xD0, CHR 0xB8]\<rparr>"

section \<open>Properties\<close>

subsection \<open>Filter evaluation of the flat bot handler\<close>

lemma strings_HasPrefix_prefix: "strings_HasPrefix s p = prefix p s"
  by (induction s p rule: strings_HasPrefix.induct) auto

lemma strings_Contains_sublist: "strings_Contains s substr = sublist substr s"
  by (induction s) (simp_all add: strings_HasPrefix_prefix sublist_Cons_right)

lemma containsKeyword_matches: "containsKeyword text keyword = keyword_matches keyword text"
  by (simp add: containsKeyword_def keyword_matches_def ci_substring_def strings_Contains_sublist)

lemma lo_ContainsBy_Bex: "lo_ContainsBy xs p = (\<exists>x \<in> set xs. p x)"
  by (induction xs) simp_all

lemma passesFilters_loop_reference: "passesFilters_loop fs text = passes_reference fs text"
  by (induction fs)
     (simp_all add: lo_ContainsBy_Bex containsKeyword_matches Let_def split: FilterType.split)

lemma effective_text_eq:
  "(if tg_Text msg = [] \<and> tg_Caption msg \<noteq> [] then tg_Caption msg else tg_Text msg)
     = effective_text msg"
  by (simp add: effective_text_def)

text \<open>
  Claim C1. For every channel and every post, \<open>BotHandler.passesFilters\<close> returns what the
  reference definition of the filter engine returns on the channel's filter list and the
  post's effective text: filters in sequence order, disabled ones skipped, author filters
  passing, an enabled include filter rejecting unless a keyword is a case-insensitive
  substring, an enabled exclude filter rejecting if one is, the empty keyword never matching,
  and \<open>true\<close> when no filter rejects (so also for the empty list).
\<close>

theorem passesFilters_reference:
  "passesFilters channel msg = passes_reference (ch_Filters channel) (effective_text msg)"
proof -
  have "passesFilters channel msg = passesFilters_loop (ch_Filters channel) (effective_text msg)"
    unfolding passesFilters_def Let_def effective_text_eq by auto
  then show ?thesis
    by (simp only: passesFilters_loop_reference)
qed

theorem passesFilters_reference_witness:
  "passes_reference (ch_Filters tech_channel) (effective_text tech_post) \<and>
   \<not> passes_reference (ch_Filters tech_channel) (effective_text cooking_post)"
proof -
  have "passesFilters tech_channel tech_post"
    by code_simp
  moreover have "\<not> passesFilters tech_channel cooking_post"
    by code_simp
  ultimately show ?thesis
    using passesFilters_reference [of tech_channel tech_post]
      passesFilters_reference [of tech_channel cooking_post]
    by simp
qed

text \<open>The reference read as a conjunction: a text passes exactly when no enabled filter
  rejects it, so the order of the filters does not change the result.\<close>

lemma passes_reference_all:
  "passes_reference fs text =
     (\<forall>f \<in> set fs. flt_Enabled f \<longrightarrow>
        (case flt_Type f of
           FilterTypeKeywords \<Rightarrow> (\<exists>k \<in> set (flt_Keywords f). keyword_matches k text)
         | FilterTypeExcludeKeywords \<Rightarrow> \<not> (\<exists>k \<in> set (flt_Keywords f). keyword_matches k text)
         | FilterTypeAuthor \<Rightarrow> True))"
  by (induction fs) (auto split: FilterType.split)

subsection \<open>Feed entry titles\<close>

text \<open>
  Claim C8. The title of a feed entry is \<open>truncate(msg.Text, 100)\<close>, which never panics. For
  every text of at most 100 bytes \<open>truncate(text, 100)\<close> is the text; for every longer text it
  is the first 100 bytes followed by \<open>...\<close>; a text of 150 bytes gives a title of 103 bytes.
  The unit is the byte, the unit of Go's \<open>len\<close> and slice expressions.
\<close>

theorem truncate_100:
  "(length text \<le> 100 \<longrightarrow> truncate text 100 = Inr text) \<and>
   (length text > 100 \<longrightarrow> truncate text 100 = Inr (take 100 text @ ''...'')) \<and>
   (length text = 150 \<longrightarrow> (\<exists>title. truncate text 100 = Inr title \<and> length title = 103)) \<and>
   (\<exists>item. messageToFeedItem msg baseURL = Inr item \<and>
            truncate (msg_Text msg) 100 = Inr (item_Title item))"
  by (auto simp: truncate_def messageToFeedItem_def)

theorem truncate_100_witness:
  "length (replicate 150 CHR ''x'') = 150 \<and>
   truncate (replicate 150 CHR ''x'') 100 = Inr (replicate 100 CHR ''x'' @ ''...'') \<and>
   length ''Hello <world>'' \<le> 100 \<and>
   truncate ''Hello <world>'' 100 = Inr ''Hello <world>''"
  using truncate_100 [of "replicate 150 CHR ''x''"] truncate_100 [of "''Hello <world>''"]
  by simp

subsection \<open>Feed generation\<close>

lemma fold_append_concat:
  "fold (\<lambda>x acc. acc @ f x) xs acc0 = acc0 @ concat (map f xs)"
  by (induction xs arbitrary: acc0) simp_all

lemma escapeHTML_concat: "escapeHTML s = string_of_runes (concat (map escape_rune (runes_of s)))"
  by (simp add: escapeHTML_def fold_append_concat)

lemma string_of_runes_append [simp]:
  "string_of_runes (rs @ rs') = string_of_runes rs @ string_of_runes rs'"
  by (simp add: string_of_runes_def)

lemma items_loop_map:
  "items_loop msgs baseURL items =
     Inr (items @ map (\<lambda>msg. projr (messageToFeedItem msg baseURL)) msgs)"
  by (induction msgs arbitrary: items) (simp_all add: messageToFeedItem_def truncate_def)

lemma runes_of_ascii_Cons:
  "of_char c < (0x80 :: int) \<Longrightarrow> runes_of (c # cs) = of_char c # runes_of cs"
  by (simp add: Let_def)

lemma EncodeRune_ascii: "of_char c < (0x80 :: int) \<Longrightarrow> utf8_EncodeRune (of_char c) = [c]"
  by (simp add: utf8_EncodeRune_def)

lemma entity_runes:
  "string_of_runes (runes_of ''&lt;'') = ''&lt;''"
  "string_of_runes (runes_of ''&gt;'') = ''&gt;''"
  "string_of_runes (runes_of ''&amp;'') = ''&amp;''"
  "string_of_runes (runes_of ''&quot;'') = ''&quot;''"
  "string_of_runes (runes_of ''&#39;'') = ''&#39;''"
  by code_simp+

lemma escape_rune_entities:
  "string_of_runes (escape_rune (of_char CHR ''<'')) = escape_byte CHR ''<''"
  "string_of_runes (escape_rune (of_char CHR ''>'')) = escape_byte CHR ''>''"
  "string_of_runes (escape_rune (of_char CHR ''&'')) = escape_byte CHR ''&''"
  "string_of_runes (escape_rune (of_char CHR 0x22)) = escape_byte CHR 0x22"
  "string_of_runes (escape_rune (of_char CHR 0x27)) = escape_byte CHR 0x27"
  by code_simp+

lemma escape_rune_ascii:
  assumes "of_char c < (0x80 :: int)"
  shows "string_of_runes (escape_rune (of_char c)) = escape_byte c"
proof -
  consider "c = CHR ''<''" | "c = CHR ''>''" | "c = CHR ''&''" | "c = CHR 0x22" | "c = CHR 0x27"
    | "c \<noteq> CHR ''<''" "c \<noteq> CHR ''>''" "c \<noteq> CHR ''&''" "c \<noteq> CHR 0x22" "c \<noteq> CHR 0x27"
    by blast
  then show ?thesis
  proof cases
    case 6
    then have "escape_rune (of_char c) = [of_char c]"
      unfolding escape_rune_def by (simp only: of_char_eq_iff if_False)
    with 6 assms show ?thesis
      by (simp add: escape_byte_def string_of_runes_def EncodeRune_ascii)
  qed (simp_all only: escape_rune_entities)
qed

lemma escapeHTML_ascii_Cons:
  "of_char c < (0x80 :: int) \<Longrightarrow> escapeHTML (c # cs) = escape_byte c @ escapeHTML cs"
  by (simp add: escapeHTML_concat runes_of_ascii_Cons escape_rune_ascii del: runes_of.simps)

lemma escapeHTML_ascii:
  "list_all (\<lambda>c. of_char c < (0x80 :: int)) s \<Longrightarrow> escapeHTML s = concat (map escape_byte s)"
  by (induction s) (simp_all add: escapeHTML_ascii_Cons, simp add: escapeHTML_def string_of_runes_def)

lemma hello_escaped:
  "escapeHTML (''Hello <world>'' @ rest) = ''Hello &lt;world&gt;'' @ escapeHTML rest"
  by (simp add: escapeHTML_ascii_Cons escape_byte_def)

lemma description_fold:
  "fold description_step ms d0 = d0 @ concat (map description_line ms)"
  by (induction ms arbitrary: d0) (simp_all add: Let_def description_step_def description_line_def)

lemma item_description_eq:
  "item_description msg =
     (if msg_Text msg = [] then ''No text content'' else msg_Text msg)
       @ (if msg_Media msg = [] then []
          else [CHR 0x0A, CHR 0x0A] @ ''Media:'' @ [CHR 0x0A]
               @ concat (map description_line (msg_Media msg)))"
  by (simp add: item_description_def Let_def description_fold)

lemma item_description_text:
  "msg_Text msg \<noteq> [] \<Longrightarrow> \<exists>rest. item_description msg = msg_Text msg @ rest"
  by (simp add: item_description_eq)

lemma content_fold:
  "fold content_step ms c0 =
     c0 @ concat (map (\<lambda>m. ''<li>'' @ MediaType_String (md_Type m) @ '': '' @ md_FileID m
                              @ ''</li>'') ms)"
  by (induction ms arbitrary: c0) (simp_all add: content_step_def)

lemma item_content_paragraph:
  "item_content msg =
     ''<p>'' @ escapeHTML (item_description msg) @ ''</p>'' @ media_attachments (msg_Media msg)"
  by (simp add: item_content_def media_attachments_def Let_def content_fold)

text \<open>
  Claim C9. When the store returns a channel and exactly one message for it, \<open>GenerateFeed\<close>
  returns a feed with the title \<open>"{channel.Title} - RSS Feed"\<close> and a single entry whose Content
  is the HTML-escaped body between \<open><p>\<close> and \<open></p>\<close>, followed by the list of attachments when
  the message has media. For the title \<open>"Test Channel"\<close> the feed title is
  \<open>"Test Channel - RSS Feed"\<close>; for the text \<open>"Hello <world>"\<close> the Content contains
  \<open>"Hello &lt;world&gt;"\<close>. The escape replaces each of \<open>< > & " '\<close> by its entity; on a body of
  ASCII bytes it is the byte-wise replacement.
\<close>

theorem GenerateFeed_round_trip:
  assumes "GetChannel env w channelID = Inr channel"
    and "GetMessages env w channelID 50 = Inr [msg]"
  shows "\<exists>feed item.
           GenerateFeed env w channelID baseURL = Inr (Inr feed) \<and>
           feed_Title feed = ch_Title channel @ '' - RSS Feed'' \<and>
           feed_Items feed = [item] \<and>
           item_Content item =
             ''<p>'' @ escapeHTML (item_description msg) @ ''</p>''
               @ media_attachments (msg_Media msg) \<and>
           (ch_Title channel = ''Test Channel'' \<longrightarrow> feed_Title feed = ''Test Channel - RSS Feed'') \<and>
           (msg_Text msg = ''Hello <world>'' \<longrightarrow> sublist ''Hello &lt;world&gt;'' (item_Content item)) \<and>
           (list_all (\<lambda>c. of_char c < (0x80 :: int)) (item_description msg) \<longrightarrow>
              escapeHTML (item_description msg) = concat (map escape_byte (item_description msg)))"
proof -
  have content: "msg_Text msg = ''Hello <world>'' \<Longrightarrow>
      sublist ''Hello &lt;world&gt;'' (item_content msg)"
  proof -
    assume t: "msg_Text msg = ''Hello <world>''"
    then obtain rest where "item_description msg = ''Hello <world>'' @ rest"
      using item_description_text [of msg] by auto
    then have "item_content msg =
        ''<p>'' @ ''Hello &lt;world&gt;'' @ (escapeHTML rest @ ''</p>'' @ media_attachments (msg_Media msg))"
      by (simp only: item_content_paragraph hello_escaped append_assoc)
    then show ?thesis
      unfolding sublist_def by blast
  qed
  show ?thesis
    using assms content
    by (simp add: GenerateFeed_def messageToFeedItem_def truncate_def item_content_paragraph
        escapeHTML_ascii)
qed

theorem GenerateFeed_round_trip_witness:
  "GetChannel no_faults test_world ''42'' = Inr test_channel \<and>
   GetMessages no_faults test_world ''42'' 50 = Inr [hello_message] \<and>
   ch_Title test_channel = ''Test Channel'' \<and> msg_Text hello_message = ''Hello <world>'' \<and>
   (\<exists>feed item.
      GenerateFeed no_faults test_world ''42'' ''http://localhost:8080'' = Inr (Inr feed) \<and>
      feed_Title feed = ''Test Channel - RSS Feed'' \<and> feed_Items feed = [item] \<and>
      sublist ''Hello &lt;world&gt;'' (item_Content item))"
proof -
  have c: "GetChannel no_faults test_world ''42'' = Inr test_channel"
    by code_simp
  have m: "GetMessages no_faults test_world ''42'' 50 = Inr [hello_message]"
    by code_simp
  have t: "ch_Title test_channel = ''Test Channel''" "msg_Text hello_message = ''Hello <world>''"
    by (simp_all add: test_channel_def hello_message_def)
  from GenerateFeed_round_trip [OF c m, of "''http://localhost:8080''"] t c m
  show ?thesis by auto
qed

subsection \<open>The message store\<close>

text \<open>
  Claim C10. When the channel has no message directory, \<open>GetMessages\<close> returns the empty
  sequence and no error, whatever the limit and the environment; and if the channel itself
  can be read, \<open>GenerateFeed\<close> succeeds with a feed of zero entries.
\<close>

theorem GetMessages_absent_directory:
  assumes "map_of (message_dirs w) channelID = None"
  shows "GetMessages env w channelID limit = Inr [] \<and>
         (GetChannel env w channelID = Inr channel \<longrightarrow>
            (\<exists>feed. GenerateFeed env w channelID baseURL = Inr (Inr feed) \<and> feed_Items feed = []))"
proof -
  have "GetMessages env w channelID limit = Inr []" for limit
    using assms by (simp add: GetMessages_def os_ReadDir_def)
  then show ?thesis
    by (simp add: GenerateFeed_def)
qed

theorem GetMessages_absent_directory_witness:
  "map_of (message_dirs channel_world) ''42'' = None \<and>
   GetChannel no_faults channel_world ''42'' = Inr test_channel \<and>
   GetMessages no_faults channel_world ''42'' 50 = Inr [] \<and>
   (\<exists>feed. GenerateFeed no_faults channel_world ''42'' ''http://localhost:8080'' = Inr (Inr feed)
           \<and> feed_Items feed = [])"
proof -
  have d: "map_of (message_dirs channel_world) ''42'' = None"
    by code_simp
  have c: "GetChannel no_faults channel_world ''42'' = Inr test_channel"
    by code_simp
  from GetMessages_absent_directory [OF d, of no_faults 50 test_channel "''http://localhost:8080''"] c d
  show ?thesis by simp
qed

lemma filter_key_distinct:
  "distinct (map fst al) \<Longrightarrow>
   filter (\<lambda>e. fst e = k) al = (case map_of al k of None \<Rightarrow> [] | Some v \<Rightarrow> [(k, v)])"
proof (induction al)
  case Nil
  then show ?case by simp
next
  case (Cons e al)
  then have "fst e \<notin> fst ` set al" by simp
  then have "map_of al (fst e) = None" by (simp add: map_of_eq_None_iff)
  with Cons show ?case by (cases e) (auto split: option.splits)
qed

lemma list_all_update:
  "list_all P al \<Longrightarrow> P (k, v) \<Longrightarrow> list_all P (AList.update k v al)"
  by (induction al) auto

lemma os_WriteFile_distinct:
  "distinct (map fst d) \<Longrightarrow> distinct (map fst (snd (os_WriteFile outcome name data d)))"
  by (simp add: os_WriteFile_def distinct_update split: write_outcome.split)

lemma os_MkdirAll_distinct:
  "distinct (map fst dirs) \<Longrightarrow> distinct (map fst (os_MkdirAll name dirs))"
  by (auto simp: os_MkdirAll_def map_of_eq_None_iff split: option.split)

lemma os_MkdirAll_all:
  "list_all (\<lambda>dir. distinct (map fst (snd dir))) dirs \<Longrightarrow>
   list_all (\<lambda>dir. distinct (map fst (snd dir))) (os_MkdirAll name dirs)"
  by (auto simp: os_MkdirAll_def split: option.split)

lemma entries_of_distinct:
  "list_all (\<lambda>dir. distinct (map fst (snd dir))) dirs \<Longrightarrow> distinct (map fst (entries_of dirs name))"
  by (auto simp: entries_of_def list_all_iff split: option.split dest!: map_of_SomeD)

lemma SaveMessage_well_formed:
  assumes "well_formed w"
  shows "well_formed (snd (SaveMessage env message w))"
proof -
  let ?dirs = "os_MkdirAll (msg_ChannelID message) (message_dirs w)"
  from assms have 1: "distinct (map fst ?dirs)"
    and 2: "list_all (\<lambda>dir. distinct (map fst (snd dir))) ?dirs"
    by (simp_all add: well_formed_def os_MkdirAll_distinct os_MkdirAll_all)
  have 3: "distinct (map fst x2)"
    if "os_WriteFile outcome name message (entries_of ?dirs (msg_ChannelID message)) = (x1, x2)"
    for outcome name x1 x2
    using that 2
      os_WriteFile_distinct [of "entries_of ?dirs (msg_ChannelID message)" outcome name message]
    by (simp add: entries_of_distinct)
  show ?thesis
    using assms 1 2 3
    by (auto simp: SaveMessage_def Let_def well_formed_def distinct_update list_all_update
        split: prod.split)
qed

lemma SaveMessage_stored:
  assumes "SaveMessage env message w = (None, w1)"
  shows "\<exists>d. map_of (message_dirs w1) (msg_ChannelID message) = Some d \<and>
             map_of d (Sprintf_d (msg_ID message) @ ''.json'') = Some (Doc message)"
  using assms
  by (auto simp: SaveMessage_def Let_def os_WriteFile_def update_conv'
      split: if_splits prod.splits write_outcome.splits)

lemma records_at_lookup:
  assumes "well_formed w" and "map_of (message_dirs w) channelID = Some d"
  shows "records_at w channelID messageID =
           (case map_of d (Sprintf_d messageID @ ''.json'') of None \<Rightarrow> [] | Some file \<Rightarrow> [file])"
proof -
  from assms have "distinct (map fst d)"
    by (auto simp: well_formed_def list_all_iff dest!: map_of_SomeD)
  with assms show ?thesis
    by (simp add: records_at_def well_formed_def filter_key_distinct split: option.split)
qed

lemma SaveMessage_idempotent:
  assumes "SaveMessage env message w = (None, w1)"
  shows "SaveMessage env message w1 = (None, w1)"
proof -
  let ?cid = "msg_ChannelID message"
  let ?name = "Sprintf_d (msg_ID message) @ ''.json''"
  let ?dirs = "os_MkdirAll ?cid (message_dirs w)"
  let ?d = "AList.update ?name (Doc message) (entries_of ?dirs ?cid)"
  from assms have ok: "\<not> MkdirAll_fails env [''messages'', ?cid]"
      "\<not> MarshalIndent_message_fails env message"
      "WriteFile_outcome env [''messages'', ?cid, ?name] = WriteOk"
    and w1: "w1 = w\<lparr>message_dirs := AList.update ?cid ?d ?dirs\<rparr>"
    by (auto simp: SaveMessage_def Let_def os_WriteFile_def
        split: if_splits prod.splits write_outcome.splits)
  have dirs1: "os_MkdirAll ?cid (message_dirs w1) = message_dirs w1"
    by (simp add: w1 os_MkdirAll_def update_conv')
  have ent1: "entries_of (message_dirs w1) ?cid = ?d"
    by (simp add: w1 entries_of_def update_conv')
  have wr: "os_WriteFile WriteOk ?name message ?d = (None, ?d)"
    by (simp add: os_WriteFile_def update_conv')
  show ?thesis
    using ok by (simp add: SaveMessage_def Let_def dirs1 ent1 wr) (simp add: w1)
qed

text \<open>
  Claim C3. \<open>SaveMessage\<close> is an upsert on \<open>(channelID, messageID)\<close>. In a well-formed store,
  after \<open>SaveMessage(m1)\<close> (whatever its outcome) and a \<open>SaveMessage(m2)\<close> that returns no error,
  for \<open>m1\<close> and \<open>m2\<close> with the same channel id and message id, exactly one record is stored
  under the key and it is \<open>m2\<close>; saving \<open>m2\<close> once more returns no error and leaves the
  store as it is.
\<close>

theorem SaveMessage_upsert:
  assumes "well_formed w"
    and "msg_ChannelID m1 = msg_ChannelID m2" and "msg_ID m1 = msg_ID m2"
    and "SaveMessage env1 m1 w = (r1, w1)"
    and "SaveMessage env2 m2 w1 = (None, w2)"
  shows "records_at w2 (msg_ChannelID m2) (msg_ID m2) = [Doc m2] \<and>
         SaveMessage env2 m2 w2 = (None, w2)"
proof -
  from assms(1,4) have "well_formed w1"
    using SaveMessage_well_formed [of w env1 m1] by simp
  with assms(5) have "well_formed w2"
    using SaveMessage_well_formed [of w1 env2 m2] by simp
  moreover from assms(5) obtain d where "map_of (message_dirs w2) (msg_ChannelID m2) = Some d"
    and "map_of d (Sprintf_d (msg_ID m2) @ ''.json'') = Some (Doc m2)"
    using SaveMessage_stored by blast
  ultimately have "records_at w2 (msg_ChannelID m2) (msg_ID m2) = [Doc m2]"
    by (simp add: records_at_lookup)
  with assms(5) show ?thesis
    by (simp add: SaveMessage_idempotent)
qed

theorem SaveMessage_upsert_witness:
  "well_formed channel_world \<and>
   msg_ChannelID hello_message = msg_ChannelID hello_again \<and>
   msg_ID hello_message = msg_ID hello_again \<and>
   SaveMessage no_faults hello_message channel_world = (None, test_world) \<and>
   fst (SaveMessage no_faults hello_again test_world) = None \<and>
   records_at (snd (SaveMessage no_faults hello_again test_world)) ''42'' 7 = [Doc hello_again]"
proof -
  have wf: "well_formed channel_world"
    by code_simp
  have k: "msg_ChannelID hello_message = msg_ChannelID hello_again"
    "msg_ID hello_message = msg_ID hello_again"
    by (simp_all add: hello_again_def)
  have "fst (SaveMessage no_faults hello_message channel_world) = None"
    by code_simp
  then have s1: "SaveMessage no_faults hello_message channel_world = (None, test_world)"
    by (simp add: test_world_def prod_eq_iff)
  have f2: "fst (SaveMessage no_faults hello_again test_world) = None"
    by code_simp
  then have s2: "SaveMessage no_faults hello_again test_world =
      (None, snd (SaveMessage no_faults hello_again test_world))"
    by (simp add: prod_eq_iff)
  have id: "msg_ChannelID hello_again = ''42''" "msg_ID hello_again = 7"
    by (simp_all add: hello_again_def hello_message_def)
  from SaveMessage_upsert [OF wf k s1 s2] wf k s1 f2 id
  show ?thesis by simp
qed

subsection \<open>Ingestion\<close>

lemma SaveChannel_frame:
  "message_dirs (snd (SaveChannel env channel w)) = message_dirs w"
  "slog (snd (SaveChannel env channel w)) = slog w"
  by (simp_all add: SaveChannel_def Let_def split: prod.split)

lemma SaveMessage_slog: "slog (snd (SaveMessage env message w)) = slog w"
  by (simp add: SaveMessage_def Let_def split: prod.split)

lemma SaveMessage_channel_files: "channel_files (snd (SaveMessage env message w)) = channel_files w"
  by (simp add: SaveMessage_def Let_def split: prod.split)

lemma SaveMessage_stored_entry:
  assumes "fst (SaveMessage env message w) = None"
  shows "map_of (entries_of (message_dirs (snd (SaveMessage env message w))) (msg_ChannelID message))
           (Sprintf_d (msg_ID message) @ ''.json'') = Some (Doc message)"
proof -
  from assms have "SaveMessage env message w = (None, snd (SaveMessage env message w))"
    by (simp add: prod_eq_iff)
  from SaveMessage_stored [OF this] show ?thesis
    by (auto simp: entries_of_def)
qed

text \<open>
  Claim C2. \<open>ProcessMessage\<close> returns an error exactly when the filters pass and
  \<open>SaveMessage\<close> returns one. When the filters reject, it returns \<open>nil\<close> and the world and the
  channel are as before. When the filters pass and \<open>SaveMessage\<close> succeeds, it returns \<open>nil\<close>
  whatever \<open>SaveChannel\<close> does, the message directories are as \<open>SaveMessage\<close> left them with
  the message stored under its key, and a failure of \<open>SaveChannel\<close> adds one error record to
  the log and nothing else to it.
\<close>

theorem ProcessMessage_error_iff:
  fixes env now channel msgText msgDate msgID author media link w
  defines "message \<equiv>
     \<lparr>msg_ID = msgID, msg_ChannelID = ch_ID channel, msg_ChannelName = ch_Title channel,
      msg_Text = msgText, msg_Date = msgDate, msg_Author = author, msg_Media = media,
      msg_Link = link\<rparr>"
  defines "result \<equiv> ProcessMessage env now channel msgText msgDate msgID author media link w"
  defines "saved \<equiv> SaveMessage env message w"
  shows "(fst result \<noteq> None) = (Service_passesFilters channel msgText \<and> fst saved \<noteq> None) \<and>
         (\<not> Service_passesFilters channel msgText \<longrightarrow> result = (None, channel, w)) \<and>
         (Service_passesFilters channel msgText \<and> fst saved = None \<longrightarrow>
            fst result = None \<and>
            message_dirs (snd (snd result)) = message_dirs (snd saved) \<and>
            map_of (entries_of (message_dirs (snd (snd result))) (ch_ID channel))
              (Sprintf_d msgID @ ''.json'') = Some (Doc message) \<and>
            (fst (SaveChannel env (channel\<lparr>ch_LastUpdate := now\<rparr>) (snd saved)) \<noteq> None \<longrightarrow>
               slog (snd (snd result)) =
                 slog w @ [(LevelError, ''Failed to update channel last update time'')]))"
proof -
  have stored: "fst saved = None \<Longrightarrow>
      map_of (entries_of (message_dirs (snd saved)) (ch_ID channel))
        (Sprintf_d msgID @ ''.json'') = Some (Doc message)"
    using SaveMessage_stored_entry [of env message w] by (simp add: saved_def message_def)
  obtain e1 w1 where s: "SaveMessage env message w = (e1, w1)"
    by (metis prod.exhaust)
  obtain e2 w2 where c: "SaveChannel env (channel\<lparr>ch_LastUpdate := now\<rparr>) w1 = (e2, w2)"
    by (metis prod.exhaust)
  have f: "message_dirs w2 = message_dirs w1" "slog w2 = slog w1" "slog w1 = slog w"
    using SaveChannel_frame [of env "channel\<lparr>ch_LastUpdate := now\<rparr>" w1] c
      SaveMessage_slog [of env message w] s by simp_all
  show ?thesis
    using stored s c f
    unfolding result_def saved_def ProcessMessage_def Let_def message_def [symmetric]
    by (cases e1; cases e2) (simp_all add: slog_call_def)
qed

theorem ProcessMessage_error_iff_witness:
  "Service_passesFilters test_channel ''Hello <world>'' \<and>
   fst (SaveMessage channel_write_fails hello_message channel_world) = None \<and>
   fst (SaveChannel channel_write_fails (test_channel\<lparr>ch_LastUpdate := 1700000200\<rparr>)
          (snd (SaveMessage channel_write_fails hello_message channel_world))) \<noteq> None \<and>
   fst (ProcessMessage channel_write_fails 1700000200 test_channel ''Hello <world>'' 1700000100 7
          ''Unknown'' [] ''https://t.me/test_channel/7'' channel_world) = None \<and>
   slog (snd (snd (ProcessMessage channel_write_fails 1700000200 test_channel ''Hello <world>''
          1700000100 7 ''Unknown'' [] ''https://t.me/test_channel/7'' channel_world)))
     = [(LevelError, ''Failed to update channel last update time'')] \<and>
   fst (SaveMessage message_write_fails hello_message channel_world) \<noteq> None \<and>
   fst (ProcessMessage message_write_fails 1700000200 test_channel ''Hello <world>'' 1700000100 7
          ''Unknown'' [] ''https://t.me/test_channel/7'' channel_world) \<noteq> None \<and>
   \<not> Service_passesFilters tech_channel ''cooking tips'' \<and>
   ProcessMessage no_faults 1700000200 tech_channel ''cooking tips'' 1700000100 7
          ''Unknown'' [] ''https://t.me/test_channel/7'' channel_world
     = (None, tech_channel, channel_world)"
proof -
  have m: "\<lparr>msg_ID = 7, msg_ChannelID = ch_ID test_channel,
            msg_ChannelName = ch_Title test_channel, msg_Text = ''Hello <world>'',
            msg_Date = 1700000100, msg_Author = ''Unknown'', msg_Media = [],
            msg_Link = ''https://t.me/test_channel/7''\<rparr> = hello_message"
    by (simp add: hello_message_def test_channel_def)
  have p: "Service_passesFilters test_channel ''Hello <world>''"
    by code_simp
  have s: "fst (SaveMessage channel_write_fails hello_message channel_world) = None"
    by code_simp
  have c: "fst (SaveChannel channel_write_fails (test_channel\<lparr>ch_LastUpdate := 1700000200\<rparr>)
          (snd (SaveMessage channel_write_fails hello_message channel_world))) \<noteq> None"
    by code_simp
  have l: "slog channel_world = []"
    by code_simp
  have f: "fst (SaveMessage message_write_fails hello_message channel_world) \<noteq> None"
    by code_simp
  have r: "\<not> Service_passesFilters tech_channel ''cooking tips''"
    by code_simp
  show ?thesis
    using p s c l f r
      ProcessMessage_error_iff [of channel_write_fails 1700000200 test_channel "''Hello <world>''"
        1700000100 7 "''Unknown''" "[]" "''https://t.me/test_channel/7''" channel_world]
      ProcessMessage_error_iff [of message_write_fails 1700000200 test_channel "''Hello <world>''"
        1700000100 7 "''Unknown''" "[]" "''https://t.me/test_channel/7''" channel_world]
      ProcessMessage_error_iff [of no_faults 1700000200 tech_channel "''cooking tips''"
        1700000100 7 "''Unknown''" "[]" "''https://t.me/test_channel/7''" channel_world]
    unfolding m by simp
qed

lemma GetChannel_absent:
  "map_of (channel_files w) (channelID @ ''.json'') = None \<Longrightarrow>
   GetChannel env w channelID = Inl ErrChannelNotFound"
  by (simp add: GetChannel_def os_ReadFile_def)

lemma GetChannel_stored:
  "map_of (channel_files w) (channelID @ ''.json'') = Some (Doc channel) \<Longrightarrow>
   GetChannel env w channelID =
     (if ReadFile_fails env [''channels'', channelID @ ''.json'']
      then Inl (Wrap ''failed to read channel'' ErrIO) else Inr channel)"
  by (simp add: GetChannel_def os_ReadFile_def json_Unmarshal_def)

text \<open>
  Claim C4. A post for a chat whose channel file is absent, or whose stored channel has
  \<open>IsActive = false\<close>, changes nothing: both handlers leave the world as it is, so no message
  is written, the channel record (with its \<open>LastUpdate\<close>) is unchanged and nothing is logged.
  The handlers return no value, so no error reaches the caller.
\<close>

theorem unknown_or_inactive_channel_ignored:
  assumes "map_of (channel_files w) (Sprintf_d (tg_Chat_ID msg) @ ''.json'') = None \<or>
           (\<exists>channel. map_of (channel_files w) (Sprintf_d (tg_Chat_ID msg) @ ''.json'')
                         = Some (Doc channel) \<and> \<not> ch_IsActive channel)"
  shows "Handler_processChannelPost env now (Some msg) w = w \<and>
         BotHandler_processChannelPost h env (Some msg) w = w"
proof -
  from assms consider
    (absent) "GetChannel env w (Sprintf_d (tg_Chat_ID msg)) = Inl ErrChannelNotFound"
    | (unread) "GetChannel env w (Sprintf_d (tg_Chat_ID msg)) = Inl (Wrap ''failed to read channel'' ErrIO)"
    | (inactive) channel where "GetChannel env w (Sprintf_d (tg_Chat_ID msg)) = Inr channel"
        "\<not> ch_IsActive channel"
    using GetChannel_absent [of w "Sprintf_d (tg_Chat_ID msg)" env]
      GetChannel_stored [of w "Sprintf_d (tg_Chat_ID msg)" _ env]
    by (metis (full_types))
  then show ?thesis
    by cases
      (simp_all add: Handler_processChannelPost_def BotHandler_processChannelPost_def Let_def)
qed

theorem unknown_or_inactive_channel_ignored_witness:
  "map_of (channel_files empty_world) (Sprintf_d (tg_Chat_ID hello_post) @ ''.json'') = None \<and>
   Handler_processChannelPost no_faults 1700000200 (Some hello_post) empty_world = empty_world \<and>
   BotHandler_processChannelPost full_handler no_faults (Some hello_post) empty_world = empty_world \<and>
   map_of (channel_files inactive_world) (Sprintf_d (tg_Chat_ID hello_post) @ ''.json'')
     = Some (Doc (test_channel\<lparr>ch_IsActive := False\<rparr>)) \<and>
   \<not> ch_IsActive (test_channel\<lparr>ch_IsActive := False\<rparr>) \<and>
   Handler_processChannelPost no_faults 1700000200 (Some hello_post) inactive_world = inactive_world \<and>
   BotHandler_processChannelPost full_handler no_faults (Some hello_post) inactive_world
     = inactive_world"
proof -
  have a: "map_of (channel_files empty_world) (Sprintf_d (tg_Chat_ID hello_post) @ ''.json'') = None"
    by code_simp
  have i: "map_of (channel_files inactive_world) (Sprintf_d (tg_Chat_ID hello_post) @ ''.json'')
     = Some (Doc (test_channel\<lparr>ch_IsActive := False\<rparr>))"
    by code_simp
  have n: "\<not> ch_IsActive (test_channel\<lparr>ch_IsActive := False\<rparr>)"
    by simp
  from a have a': "map_of (channel_files empty_world) (Sprintf_d (tg_Chat_ID hello_post) @ ''.json'') = None \<or>
           (\<exists>channel. map_of (channel_files empty_world) (Sprintf_d (tg_Chat_ID hello_post) @ ''.json'')
                         = Some (Doc channel) \<and> \<not> ch_IsActive channel)"
    by simp
  from i n have i': "map_of (channel_files inactive_world) (Sprintf_d (tg_Chat_ID hello_post) @ ''.json'') = None \<or>
           (\<exists>channel. map_of (channel_files inactive_world) (Sprintf_d (tg_Chat_ID hello_post) @ ''.json'')
                         = Some (Doc channel) \<and> \<not> ch_IsActive channel)"
    by blast
  show ?thesis
    using a i n
      unknown_or_inactive_channel_ignored [OF a', of no_faults 1700000200 full_handler]
      unknown_or_inactive_channel_ignored [OF i', of no_faults 1700000200 full_handler]
    by simp
qed

lemma SaveChannel_stored:
  assumes "fst (SaveChannel env channel w) = None"
  shows "map_of (channel_files (snd (SaveChannel env channel w))) (ch_ID channel @ ''.json'')
           = Some (Doc channel)"
  using assms
  by (auto simp: SaveChannel_def Let_def os_WriteFile_def update_conv'
      split: if_splits write_outcome.splits)

text \<open>
  Claim C5, as amended. On the modular path (\<open>Handler.processChannelPost\<close> calling
  \<open>Service.ProcessMessage\<close>), for an active channel and a post that passes the filters, when
  the save of the message succeeds and the save of the channel succeeds, the stored channel
  record is the channel with \<open>LastUpdate\<close> set to the ingestion time, and the message is stored
  under its key.
\<close>

theorem Handler_updates_LastUpdate:
  fixes env now msg w channel
  defines "message \<equiv>
     \<lparr>msg_ID = tg_ID msg, msg_ChannelID = ch_ID channel, msg_ChannelName = ch_Title channel,
      msg_Text = effective_text msg, msg_Date = tg_Date msg, msg_Author = getAuthorName msg,
      msg_Media = extractMedia msg, msg_Link = post_link channel msg\<rparr>"
  assumes "GetChannel env w (Sprintf_d (tg_Chat_ID msg)) = Inr channel"
    and "ch_IsActive channel"
    and "Service_passesFilters channel (effective_text msg)"
    and "fst (SaveMessage env message w) = None"
    and "fst (SaveChannel env (channel\<lparr>ch_LastUpdate := now\<rparr>) (snd (SaveMessage env message w)))
           = None"
  shows "map_of (channel_files (Handler_processChannelPost env now (Some msg) w))
           (ch_ID channel @ ''.json'') = Some (Doc (channel\<lparr>ch_LastUpdate := now\<rparr>)) \<and>
         map_of (entries_of (message_dirs (Handler_processChannelPost env now (Some msg) w))
                   (ch_ID channel)) (Sprintf_d (tg_ID msg) @ ''.json'') = Some (Doc message)"
proof -
  obtain w1 where s: "SaveMessage env message w = (None, w1)"
    using assms(5) by (metis prod.collapse)
  obtain w2 where c: "SaveChannel env (channel\<lparr>ch_LastUpdate := now\<rparr>) w1 = (None, w2)"
    using assms(6) s by (metis prod.collapse snd_conv)
  have p: "ProcessMessage env now channel (effective_text msg) (tg_Date msg) (tg_ID msg)
             (getAuthorName msg) (extractMedia msg) (post_link channel msg) w
           = (None, channel\<lparr>ch_LastUpdate := now\<rparr>, w2)"
    using assms(4) s c
    unfolding ProcessMessage_def Let_def message_def [symmetric] by simp
  have h: "Handler_processChannelPost env now (Some msg) w
           = slog_call LevelInfo ''New message from channel'' w2"
    using assms(2,3) p
    by (simp add: Handler_processChannelPost_def Let_def effective_text_eq)
  have 1: "map_of (channel_files w2) (ch_ID channel @ ''.json'')
           = Some (Doc (channel\<lparr>ch_LastUpdate := now\<rparr>))"
    using SaveChannel_stored [of env "channel\<lparr>ch_LastUpdate := now\<rparr>" w1] c by simp
  have 2: "map_of (entries_of (message_dirs w2) (ch_ID channel)) (Sprintf_d (tg_ID msg) @ ''.json'')
           = Some (Doc message)"
    using SaveMessage_stored_entry [of env message w] s
      SaveChannel_frame(1) [of env "channel\<lparr>ch_LastUpdate := now\<rparr>" w1] c
    by (simp add: message_def)
  show ?thesis
    using 1 2 by (simp add: h slog_call_def)
qed

theorem Handler_updates_LastUpdate_witness:
  "GetChannel no_faults channel_world (Sprintf_d (tg_Chat_ID hello_post)) = Inr test_channel \<and>
   ch_IsActive test_channel \<and>
   Service_passesFilters test_channel (effective_text hello_post) \<and>
   fst (SaveMessage no_faults hello_message channel_world) = None \<and>
   fst (SaveChannel no_faults (test_channel\<lparr>ch_LastUpdate := 1700000200\<rparr>)
          (snd (SaveMessage no_faults hello_message channel_world))) = None \<and>
   map_of (channel_files (Handler_processChannelPost no_faults 1700000200 (Some hello_post)
                            channel_world)) ''42.json''
     = Some (Doc (test_channel\<lparr>ch_LastUpdate := 1700000200\<rparr>))"
proof -
  have m: "\<lparr>msg_ID = tg_ID hello_post, msg_ChannelID = ch_ID test_channel,
            msg_ChannelName = ch_Title test_channel, msg_Text = effective_text hello_post,
            msg_Date = tg_Date hello_post, msg_Author = getAuthorName hello_post,
            msg_Media = extractMedia hello_post, msg_Link = post_link test_channel hello_post\<rparr>
           = hello_message"
    by code_simp
  have g: "GetChannel no_faults channel_world (Sprintf_d (tg_Chat_ID hello_post)) = Inr test_channel"
    by code_simp
  have a: "ch_IsActive test_channel"
    by code_simp
  have p: "Service_passesFilters test_channel (effective_text hello_post)"
    by code_simp
  have s: "fst (SaveMessage no_faults hello_message channel_world) = None"
    by code_simp
  have c: "fst (SaveChannel no_faults (test_channel\<lparr>ch_LastUpdate := 1700000200\<rparr>)
          (snd (SaveMessage no_faults hello_message channel_world))) = None"
    by code_simp
  have i: "ch_ID test_channel @ ''.json'' = ''42.json''"
    by (simp add: test_channel_def)
  from Handler_updates_LastUpdate [OF g a p, unfolded m, OF s c] g a p s c i
  show ?thesis by simp
qed

text \<open>
  The claim as first stated fails. When the write of the channel file fails, the modular
  handler stores the message and leaves the stored channel with its old \<open>LastUpdate\<close>; the
  flat handler stores the message and never writes the channel, in an environment without
  failures.
\<close>

theorem LastUpdate_not_updated:
  "GetMessages no_faults
     (Handler_processChannelPost channel_write_fails 1700000200 (Some hello_post) channel_world)
     ''42'' 50 = Inr [hello_message] \<and>
   GetChannel no_faults
     (Handler_processChannelPost channel_write_fails 1700000200 (Some hello_post) channel_world)
     ''42'' = Inr test_channel \<and>
   GetMessages no_faults
     (BotHandler_processChannelPost full_handler no_faults (Some hello_post) channel_world)
     ''42'' 50 = Inr [hello_message] \<and>
   GetChannel no_faults
     (BotHandler_processChannelPost full_handler no_faults (Some hello_post) channel_world)
     ''42'' = Inr test_channel \<and>
   ch_LastUpdate test_channel = 1700000000"
  by code_simp

subsection \<open>The message listing\<close>

text \<open>
  Claim C6 (the code differs). \<open>os.ReadDir\<close> sorts the file names as strings, so \<open>9.json\<close>
  comes after \<open>59.json\<close>, and the loop of \<open>GetMessages\<close> takes entries from the end of that
  listing. For the directory with the messages 9 to 59 and the limit 50 the listing is message
  9 followed by 59 down to 11: message 10 is stored, has a larger key than message 9, and is
  left out.
\<close>

theorem GetMessages_not_largest_keys:
  "GetMessages no_faults listed_world ''42'' 50 = Inr (map numbered_message (9 # rev [11..59])) \<and>
   map_of (entries_of (message_dirs listed_world) ''42'') ''10.json''
     = Some (Doc (numbered_message 10))"
  by code_simp

text \<open>The same through the save operation, with the limit 1: after message 9 and then
  message 10 are saved, the most recent message listed is message 9.\<close>

lemma GetMessages_after_two_saves:
  "GetMessages no_faults
     (snd (SaveMessage no_faults (numbered_message 10)
        (snd (SaveMessage no_faults (numbered_message 9) channel_world)))) ''42'' 1
   = Inr [numbered_message 9]"
  by code_simp

text \<open>What does hold of the listing and the feed: at most \<open>limit\<close> messages are listed, and
  the feed has one entry per listed message, in the order of the listing.\<close>

lemma GetMessages_loop_length:
  "int (length (GetMessages_loop env msgDir entries count limit msgs))
     \<le> int (length msgs) + max 0 (limit - count)"
  by (induction env msgDir entries count limit msgs rule: GetMessages_loop.induct)
     (auto split: sum.split)

lemma GetMessages_at_most_limit:
  assumes "GetMessages env w channelID limit = Inr msgs"
  shows "int (length msgs) \<le> max 0 limit"
proof -
  from assms consider "msgs = []"
    | entries where "msgs = GetMessages_loop env [''messages'', channelID] entries 0 limit []"
    by (auto simp: GetMessages_def Let_def split: sum.splits if_splits)
  then show ?thesis
  proof cases
    case 1
    then show ?thesis by simp
  next
    case 2
    then show ?thesis
      using GetMessages_loop_length [of env "[''messages'', channelID]" entries 0 limit "[]"]
      by simp
  qed
qed

lemma GenerateFeed_one_item_per_message:
  assumes "GetChannel env w channelID = Inr channel"
    and "GetMessages env w channelID 50 = Inr msgs"
  shows "\<exists>feed. GenerateFeed env w channelID baseURL = Inr (Inr feed) \<and>
           length (feed_Items feed) = length msgs \<and> length msgs \<le> 50 \<and>
           map item_Id (feed_Items feed)
             = map (\<lambda>msg. msg_ChannelID msg @ ''-'' @ Sprintf_d (msg_ID msg)) msgs"
proof -
  have "map item_Id (map (\<lambda>msg. projr (messageToFeedItem msg baseURL)) msgs)
        = map (\<lambda>msg. msg_ChannelID msg @ ''-'' @ Sprintf_d (msg_ID msg)) msgs"
    by (simp add: messageToFeedItem_def truncate_def)
  then show ?thesis
    using assms GetMessages_at_most_limit [OF assms(2)]
    by (simp add: GenerateFeed_def items_loop_map)
qed

subsection \<open>The two filter evaluations\<close>

text \<open>
  Claim C7 (the code differs). The flat handler lower-cases with \<open>strings.ToLower\<close>, which
  maps the Cyrillic capital letter to its small letter; \<open>toLower\<close> of the channel service changes
  the bytes \<open>A\<close> to \<open>Z\<close> only. For the include filter with the keyword in lower case and the
  post whose text starts with the capital letter, the flat evaluation passes the post and the
  modular evaluation rejects it.
\<close>

theorem filters_differ_on_cyrillic:
  "passesFilters news_channel news_post \<and>
   \<not> Service_passesFilters news_channel (effective_text news_post)"
  by code_simp

text \<open>Where the two evaluations agree: on a text and keywords of ASCII bytes.\<close>

lemma toLower_map: "toLower s = map ascii_lower s"
  by (induction s) (simp_all add: ascii_lower_def byte_in_def)

lemma strings_ToLower_ascii:
  "list_all (\<lambda>c. of_char c < (0x80 :: int)) s \<Longrightarrow> strings_ToLower s = toLower s"
  by (simp add: strings_ToLower_def toLower_map)

lemma containsSubstring_loop_iff:
  "containsSubstring_loop t s i =
     (\<exists>j. i \<le> j \<and> j + length s \<le> length t \<and> take (length s) (drop j t) = s)"
proof (induction t s i rule: containsSubstring_loop.induct)
  case (1 t s i)
  consider (found) "i + length s \<le> length t" "take (length s) (drop i t) = s"
    | (step) "i + length s \<le> length t" "take (length s) (drop i t) \<noteq> s"
    | (stop) "\<not> i + length s \<le> length t"
    by blast
  then show ?case
  proof cases
    case found
    then show ?thesis
      by (subst containsSubstring_loop.simps) auto
  next
    case step
    have "(\<exists>j. i \<le> j \<and> j + length s \<le> length t \<and> take (length s) (drop j t) = s)
          = (\<exists>j. i + 1 \<le> j \<and> j + length s \<le> length t \<and> take (length s) (drop j t) = s)"
      using step(2) by (metis Suc_eq_plus1 Suc_leI le_eq_less_or_eq Suc_leD)
    with step 1 show ?thesis
      by (subst containsSubstring_loop.simps) auto
  next
    case stop
    then show ?thesis
      by (subst containsSubstring_loop.simps) auto
  qed
qed

lemma sublist_take_drop:
  "sublist s t = (\<exists>j. j + length s \<le> length t \<and> take (length s) (drop j t) = s)"
proof
  assume "sublist s t"
  then obtain ps ss where "t = ps @ s @ ss" by (auto simp: sublist_def)
  then have "length ps + length s \<le> length t \<and> take (length s) (drop (length ps) t) = s"
    by simp
  then show "\<exists>j. j + length s \<le> length t \<and> take (length s) (drop j t) = s" by blast
next
  assume "\<exists>j. j + length s \<le> length t \<and> take (length s) (drop j t) = s"
  then obtain j where j: "j + length s \<le> length t" "take (length s) (drop j t) = s" by blast
  have "t = take j t @ take (length s) (drop j t) @ drop (length s) (drop j t)"
    by (metis append_take_drop_id)
  with j show "sublist s t" unfolding sublist_def by metis
qed

lemma containsSubstring_sublist: "containsSubstring text substr = sublist (toLower substr) (toLower text)"
  by (simp add: containsSubstring_def containsSubstring_loop_iff sublist_take_drop)

lemma contains_sublist:
  "contains text keyword = (keyword \<noteq> [] \<and> sublist (toLower keyword) (toLower text))"
proof -
  have "sublist (toLower keyword) (toLower text) \<Longrightarrow> length keyword \<le> length text"
    using sublist_length_le [of "toLower keyword" "toLower text"] by (simp add: toLower_map)
  then show ?thesis
    by (auto simp: contains_def containsSubstring_sublist)
qed

lemma contains_containsKeyword:
  assumes "list_all (\<lambda>c. of_char c < (0x80 :: int)) text"
    and "list_all (\<lambda>c. of_char c < (0x80 :: int)) keyword"
  shows "contains text keyword = containsKeyword text keyword"
  using assms
  by (simp add: contains_sublist containsKeyword_matches keyword_matches_def ci_substring_def
      strings_ToLower_ascii)

lemma any_keyword_Bex: "any_keyword text ks = (\<exists>k \<in> set ks. contains text k)"
  by (induction ks) simp_all

lemma filters_agree_on_ascii:
  assumes "list_all (\<lambda>c. of_char c < (0x80 :: int)) (effective_text msg)"
    and "list_all (\<lambda>f. list_all (list_all (\<lambda>c. of_char c < (0x80 :: int))) (flt_Keywords f))
           (ch_Filters channel)"
  shows "Service_passesFilters channel (effective_text msg) = passesFilters channel msg"
proof -
  have "Service_passesFilters_loop fs (effective_text msg)
        = passesFilters_loop fs (effective_text msg)"
    if "list_all (\<lambda>f. list_all (list_all (\<lambda>c. of_char c < (0x80 :: int))) (flt_Keywords f)) fs"
    for fs
    using that assms(1)
    by (induction fs)
       (auto simp: any_keyword_Bex lo_ContainsBy_Bex contains_containsKeyword list_all_iff Let_def
          split: FilterType.split)
  with assms(2) show ?thesis
    unfolding Service_passesFilters_def passesFilters_def Let_def effective_text_eq by simp
qed

end
